theory Spec2Isabelle
  imports Complex_Main "HOL-Library.AList" "HOL-Library.Multiset"
begin

section \<open>The insight service of AUDHD: data model\<close>

text \<open>
  A shallow embedding of \<^verbatim>\<open>src/components/profile/services/insightService.ts\<close>.

  Numbers. A JavaScript \<^verbatim>\<open>number\<close> is an IEEE 754 double: the type \<open>number\<close> below has
  the finite values, the two infinities and NaN, and every arithmetic operation of the source
  rounds its exact result to the nearest double, ties to even, and overflows to an infinity.
  Counters that start at 0 and are only incremented, and array lengths, are \<^typ>\<open>nat\<close>.

  Names. Where a property name of the source is taken in HOL or is used by two shapes, the
  field is renamed: \<^verbatim>\<open>id\<close> of an assessment is \<open>assessment_id\<close>, \<^verbatim>\<open>id\<close> of the
  result is \<open>insights_id\<close>, \<^verbatim>\<open>value\<close> and \<^verbatim>\<open>area\<close> of a cognitive area are
  \<open>rawValue\<close> and \<open>areaName\<close>.

  Objects used as dictionaries (\<^verbatim>\<open>Record<string, ...>\<close>) are association lists in insertion
  order, read with \<^const>\<open>map_of\<close> and written with \<^const>\<open>AList.update\<close>, which replaces the
  value of a present key in place and appends an absent key at the end, as a property
  assignment does.
\<close>

section \<open>JavaScript numbers\<close>

text \<open>
  A finite double is written \<open>Finite r\<close> with \<open>r\<close> its real value. The two zeros of IEEE
  754 are one value here: the source never divides by a computed zero and never prints a
  number, so the sign of a zero cannot be observed.
\<close>

datatype number = Finite real | PosInfinity | NegInfinity | NaN

definition pow2 :: "int \<Rightarrow> real" where
  "pow2 e = (if 0 \<le> e then 2 ^ nat e else 1 / 2 ^ nat (- e))"

text \<open>
  The binary exponent of a real in double precision: that of the leading bit, and not below
  the exponent of the smallest normal number.
\<close>

definition exponent :: "real \<Rightarrow> int" where
  "exponent x = (if x = 0 then - 1022 else max (- 1022) \<lfloor>log 2 \<bar>x\<bar>\<rfloor>)"

definition roundTiesToEven :: "real \<Rightarrow> int" where
  "roundTiesToEven y =
     (let f = \<lfloor>y\<rfloor>; d = y - of_int f
      in if d < 1 / 2 then f else if d > 1 / 2 then f + 1 else if even f then f else f + 1)"

text \<open>
  Rounding to double precision: to the nearest multiple of the unit in the last of 53 places,
  and to an infinity when the rounded magnitude reaches \<open>2 ^ 1024\<close>.
\<close>

definition round64 :: "real \<Rightarrow> number" where
  "round64 x =
     (let ulp = pow2 (exponent x - 52);
          r = of_int (roundTiesToEven (x / ulp)) * ulp
      in if r \<ge> pow2 1024 then PosInfinity
         else if r \<le> - pow2 1024 then NegInfinity
         else Finite r)"

text \<open>The sign of a number that is not NaN, as \<open>-1\<close>, \<open>0\<close> or \<open>1\<close>.\<close>

fun signOf :: "number \<Rightarrow> real" where
  "signOf (Finite a) = sgn a"
| "signOf PosInfinity = 1"
| "signOf NegInfinity = - 1"
| "signOf NaN = 0"

definition infinityOfSign :: "real \<Rightarrow> number" where
  "infinityOfSign s = (if s = 0 then NaN else if s > 0 then PosInfinity else NegInfinity)"

text \<open>\<^verbatim>\<open>a + b\<close>\<close>

fun jsAdd :: "number \<Rightarrow> number \<Rightarrow> number" where
  "jsAdd NaN b = NaN"
| "jsAdd a NaN = NaN"
| "jsAdd (Finite a) (Finite b) = round64 (a + b)"
| "jsAdd PosInfinity NegInfinity = NaN"
| "jsAdd NegInfinity PosInfinity = NaN"
| "jsAdd PosInfinity b = PosInfinity"
| "jsAdd a PosInfinity = PosInfinity"
| "jsAdd NegInfinity b = NegInfinity"
| "jsAdd a NegInfinity = NegInfinity"

fun jsNeg :: "number \<Rightarrow> number" where
  "jsNeg (Finite a) = Finite (- a)"
| "jsNeg PosInfinity = NegInfinity"
| "jsNeg NegInfinity = PosInfinity"
| "jsNeg NaN = NaN"

text \<open>\<^verbatim>\<open>a - b\<close>, which in IEEE arithmetic is \<^verbatim>\<open>a + (-b)\<close>.\<close>

definition jsSub :: "number \<Rightarrow> number \<Rightarrow> number" where
  "jsSub a b = jsAdd a (jsNeg b)"

text \<open>\<^verbatim>\<open>a * b\<close>\<close>

fun jsMul :: "number \<Rightarrow> number \<Rightarrow> number" where
  "jsMul NaN b = NaN"
| "jsMul a NaN = NaN"
| "jsMul (Finite a) (Finite b) = round64 (a * b)"
| "jsMul a b = infinityOfSign (signOf a * signOf b)"

text \<open>
  \<^verbatim>\<open>a / b\<close>. Every divisor in the source is an array length or the literal 10; a zero
  divisor is taken as the positive zero.
\<close>

fun jsDiv :: "number \<Rightarrow> number \<Rightarrow> number" where
  "jsDiv NaN b = NaN"
| "jsDiv a NaN = NaN"
| "jsDiv (Finite a) (Finite b) = (if b = 0 then infinityOfSign (sgn a) else round64 (a / b))"
| "jsDiv (Finite a) b = Finite 0"
| "jsDiv a (Finite b) = infinityOfSign (signOf a * (if b < 0 then - 1 else 1))"
| "jsDiv a b = NaN"

text \<open>\<^verbatim>\<open>a < b\<close>: false when either side is NaN.\<close>

fun jsLt :: "number \<Rightarrow> number \<Rightarrow> bool" where
  "jsLt NaN b = False"
| "jsLt a NaN = False"
| "jsLt (Finite a) (Finite b) = (a < b)"
| "jsLt PosInfinity b = False"
| "jsLt a NegInfinity = False"
| "jsLt a b = True"

text \<open>\<^verbatim>\<open>a > b\<close>, \<^verbatim>\<open>a <= b\<close> and \<^verbatim>\<open>a >= b\<close>\<close>

definition jsGt :: "number \<Rightarrow> number \<Rightarrow> bool" where
  "jsGt a b = jsLt b a"

definition jsLe :: "number \<Rightarrow> number \<Rightarrow> bool" where
  "jsLe a b = (a \<noteq> NaN \<and> b \<noteq> NaN \<and> \<not> jsLt b a)"

definition jsGe :: "number \<Rightarrow> number \<Rightarrow> bool" where
  "jsGe a b = jsLe b a"

text \<open>\<^verbatim>\<open>Math.max(a, b)\<close> and \<^verbatim>\<open>Math.min(a, b)\<close>: NaN when either argument is NaN.\<close>

definition mathMax :: "number \<Rightarrow> number \<Rightarrow> number" where
  "mathMax a b = (if a = NaN \<or> b = NaN then NaN else if jsLt a b then b else a)"

definition mathMin :: "number \<Rightarrow> number \<Rightarrow> number" where
  "mathMin a b = (if a = NaN \<or> b = NaN then NaN else if jsLt b a then b else a)"

text \<open>\<^verbatim>\<open>Math.abs(a)\<close>\<close>

fun mathAbs :: "number \<Rightarrow> number" where
  "mathAbs (Finite a) = Finite \<bar>a\<bar>"
| "mathAbs NaN = NaN"
| "mathAbs a = PosInfinity"

text \<open>\<^verbatim>\<open>Math.sqrt(a)\<close>, correctly rounded.\<close>

fun mathSqrt :: "number \<Rightarrow> number" where
  "mathSqrt (Finite a) = (if a < 0 then NaN else round64 (sqrt a))"
| "mathSqrt PosInfinity = PosInfinity"
| "mathSqrt a = NaN"

text \<open>\<^verbatim>\<open>Math.pow(a, 2)\<close>: for the exponent 2 the rounded product of \<open>a\<close> with itself.\<close>

fun mathPow2 :: "number \<Rightarrow> number" where
  "mathPow2 (Finite a) = round64 (a * a)"
| "mathPow2 NaN = NaN"
| "mathPow2 a = PosInfinity"

text \<open>The truth value of a number in a condition: zero and NaN are falsy.\<close>

fun truthy :: "number \<Rightarrow> bool" where
  "truthy (Finite a) = (a \<noteq> 0)"
| "truthy NaN = False"
| "truthy a = True"

text \<open>An array length as a number: a non-negative integer below \<open>2 ^ 32\<close>, hence exact.\<close>

definition ofLength :: "nat \<Rightarrow> number" where
  "ofLength n = Finite (real n)"

section \<open>Records of the source\<close>

text \<open>
  The eight numeric keys of \<^verbatim>\<open>AssessmentData\<close>. The source passes them around as the string
  literals of \<^verbatim>\<open>cognitiveFields\<close>, cast to \<^verbatim>\<open>keyof AssessmentData\<close>; they form a closed set.
\<close>

datatype CognitiveField =
    CreativityScore | ProblemSolving | PatternRecognition | FocusDuration
  | TaskSwitching | EmotionalRegulation | Organization | TimeAwareness

fun fieldName :: "CognitiveField \<Rightarrow> string" where
  "fieldName CreativityScore = ''creativity_score''"
| "fieldName ProblemSolving = ''problem_solving''"
| "fieldName PatternRecognition = ''pattern_recognition''"
| "fieldName FocusDuration = ''focus_duration''"
| "fieldName TaskSwitching = ''task_switching''"
| "fieldName EmotionalRegulation = ''emotional_regulation''"
| "fieldName Organization = ''organization''"
| "fieldName TimeAwareness = ''time_awareness''"

record Insight =
  area :: string
  description :: string

record UserInsights =
  insights_id :: "string option"
  strengths :: "Insight list"
  weaknesses :: "Insight list"
  generalInsight :: string
  createdAt :: "string option"
  assessmentId :: "string option"

record AssessmentData =
  assessment_id :: string
  completed_at :: string
  creativity_score :: number
  problem_solving :: number
  pattern_recognition :: number
  focus_duration :: number
  task_switching :: number
  emotional_regulation :: number
  organization :: number
  time_awareness :: number

text \<open>The property read \<^verbatim>\<open>a[field as keyof AssessmentData] as number\<close>.\<close>

fun getField :: "AssessmentData \<Rightarrow> CognitiveField \<Rightarrow> number" where
  "getField a CreativityScore = creativity_score a"
| "getField a ProblemSolving = problem_solving a"
| "getField a PatternRecognition = pattern_recognition a"
| "getField a FocusDuration = focus_duration a"
| "getField a TaskSwitching = task_switching a"
| "getField a EmotionalRegulation = emotional_regulation a"
| "getField a Organization = organization a"
| "getField a TimeAwareness = time_awareness a"

datatype Feedback = Helpful | NotHelpful

text \<open>\<^verbatim>\<open>feedback: 'helpful' | 'not-helpful' | null\<close>: \<^const>\<open>None\<close> is \<^verbatim>\<open>null\<close>.\<close>

record TechniqueInteraction =
  technique_id :: string
  technique_title :: string
  feedback :: "Feedback option"
  created_at :: string

datatype Trend = Improving | Declining | Stable

record Pattern =
  average :: number
  trend :: Trend
  consistency :: number

record TechniqueStats =
  helpful :: nat
  notHelpful :: nat
  totalInteractions :: nat
  categories :: "string list"

section \<open>analyzeHistoricalPatterns\<close>

definition cognitiveFields :: "CognitiveField list" where
  "cognitiveFields =
     [CreativityScore, ProblemSolving, PatternRecognition, FocusDuration,
      TaskSwitching, EmotionalRegulation, Organization, TimeAwareness]"

text \<open>\<^verbatim>\<open>values.reduce((sum, val) => sum + val, 0)\<close>\<close>

definition reduceSum :: "number list \<Rightarrow> number" where
  "reduceSum values = foldl (\<lambda>sum val. jsAdd sum val) (Finite 0) values"

text \<open>The trend of one field: the body of \<^verbatim>\<open>if (values.length >= 4) { ... }\<close>.\<close>

definition fieldTrend :: "number list \<Rightarrow> Trend" where
  "fieldTrend values =
     (if length values \<ge> 4 then
        (let midPoint = length values div 2;
             firstHalf = take midPoint values;
             secondHalf = drop midPoint values;
             firstAvg = jsDiv (reduceSum firstHalf) (ofLength (length firstHalf));
             secondAvg = jsDiv (reduceSum secondHalf) (ofLength (length secondHalf))
         in if jsGt secondAvg (jsAdd firstAvg (Finite 5)) then Improving
            else if jsLt secondAvg (jsSub firstAvg (Finite 5)) then Declining
            else Stable)
      else Stable)"

text \<open>
  One pass of the \<^verbatim>\<open>cognitiveFields.forEach\<close> callback: first the values of the field are
  collected, then the pattern is computed from them.
\<close>

definition valuesPattern :: "number list \<Rightarrow> Pattern" where
  "valuesPattern values =
     (let average = jsDiv (reduceSum values) (ofLength (length values));
          trend = fieldTrend values;
          variance =
            jsDiv (foldl (\<lambda>sum val. jsAdd sum (mathPow2 (jsSub val average))) (Finite 0) values)
              (ofLength (length values));
          consistency = mathMax (Finite 0) (jsSub (Finite 100) (mathSqrt variance))
      in \<lparr>average = average, trend = trend, consistency = consistency\<rparr>)"

definition fieldPattern :: "AssessmentData list \<Rightarrow> CognitiveField \<Rightarrow> Pattern" where
  "fieldPattern assessments field =
     (let values = map (\<lambda>a. getField a field) assessments in valuesPattern values)"

definition analyzeHistoricalPatterns ::
    "AssessmentData list \<Rightarrow> (CognitiveField \<times> Pattern) list" where
  "analyzeHistoricalPatterns assessments =
     (if length assessments = 0 then []
      else foldl (\<lambda>patterns field. AList.update field (fieldPattern assessments field) patterns)
             [] cognitiveFields)"

section \<open>calculatePriorityScore\<close>

text \<open>
  The literals \<^verbatim>\<open>0.3\<close> and \<^verbatim>\<open>0.2\<close> of the source are the doubles nearest to three and
  two tenths; the other literals are integers.

  An element of \<^verbatim>\<open>cognitiveAreas\<close>; an absent \<^verbatim>\<open>pattern\<close> (\<^verbatim>\<open>undefined\<close>) is
  \<^const>\<open>None\<close>. The second argument of \<open>calculatePriorityScore\<close> is not read by the source.
\<close>

record CognitiveArea =
  field :: CognitiveField
  rawValue :: number
  pattern :: "Pattern option"
  areaName :: string
  strengthDescription :: string
  growthDescription :: string

definition calculatePriorityScore ::
    "CognitiveArea \<Rightarrow> (CognitiveField \<times> Pattern) list \<Rightarrow> AssessmentData list \<Rightarrow> number" where
  "calculatePriorityScore item patterns allAssessments =
     (let score = rawValue item;
          score =
            (case pattern item of
               None \<Rightarrow> score
             | Some p \<Rightarrow>
                 (let score = (if trend p = Improving then jsAdd score (Finite 15)
                               else if trend p = Declining then jsSub score (Finite 10)
                               else score);
                      score = (if jsGt (consistency p) (Finite 80) then jsAdd score (Finite 8)
                               else if jsLt (consistency p) (Finite 40) then jsSub score (Finite 5)
                               else score)
                  in if truthy (average p) then
                       (let historicalWeight =
                              mathMin (jsDiv (ofLength (length allAssessments)) (Finite 10))
                                (round64 (3 / 10))
                        in jsAdd (jsMul score (jsSub (Finite 1) historicalWeight))
                             (jsMul (average p) historicalWeight))
                     else score));
          score =
            (if length allAssessments > 1 then
               (let recentTrend = map (\<lambda>a. getField a (field item)) (take 3 allAssessments)
                in if length recentTrend \<ge> 2 then
                     (let recentChange =
                            jsSub (recentTrend ! 0) (recentTrend ! (length recentTrend - 1))
                      in jsAdd score (jsMul recentChange (round64 (2 / 10))))
                   else score)
             else score)
      in mathMax (Finite 0) (mathMin (Finite 100) score))"

section \<open>analyzeTechniquePatterns\<close>

text \<open>
  \<^verbatim>\<open>techniqueStats\<close> is created by the object literal \<^verbatim>\<open>{}\<close>, so the read
  \<^verbatim>\<open>techniqueStats[key]\<close> follows the prototype chain: for a key that names a property of
  \<^verbatim>\<open>Object.prototype\<close> it yields the inherited function (or object), which is truthy.
  These are the property names of \<^verbatim>\<open>Object.prototype\<close>.
\<close>

definition objectPrototypeKeys :: "string list" where
  "objectPrototypeKeys =
     [''constructor'', ''hasOwnProperty'', ''isPrototypeOf'', ''propertyIsEnumerable'',
      ''toLocaleString'', ''toString'', ''valueOf'', ''__proto__'',
      ''__defineGetter__'', ''__defineSetter__'', ''__lookupGetter__'', ''__lookupSetter__'']"

text \<open>
  The callback of \<^verbatim>\<open>interactions.forEach\<close>. The association list holds the own properties
  of \<^verbatim>\<open>techniqueStats\<close>, which is what the function returns. When the key is inherited and
  not own, \<^verbatim>\<open>!techniqueStats[key]\<close> is false, no own entry is created, and the three
  increments write to the inherited object: the own properties stay as they are.
\<close>

definition recordInteraction ::
    "(string \<times> TechniqueStats) list \<Rightarrow> TechniqueInteraction \<Rightarrow> (string \<times> TechniqueStats) list" where
  "recordInteraction techniqueStats interaction =
     (let key = technique_id interaction;
          techniqueStats =
            (if map_of techniqueStats key = None \<and> key \<notin> set objectPrototypeKeys
             then AList.update key
                    \<lparr>helpful = 0, notHelpful = 0, totalInteractions = 0, categories = []\<rparr>
                    techniqueStats
             else techniqueStats)
      in case map_of techniqueStats key of
           None \<Rightarrow> techniqueStats
         | Some s \<Rightarrow>
             (let s = s\<lparr>totalInteractions := totalInteractions s + 1\<rparr>;
                  s = (if feedback interaction = Some Helpful
                       then s\<lparr>helpful := helpful s + 1\<rparr> else s);
                  s = (if feedback interaction = Some NotHelpful
                       then s\<lparr>notHelpful := notHelpful s + 1\<rparr> else s)
              in AList.update key s techniqueStats))"

definition analyzeTechniquePatterns ::
    "TechniqueInteraction list \<Rightarrow> (string \<times> TechniqueStats) list" where
  "analyzeTechniquePatterns interactions = foldl recordInteraction [] interactions"

section \<open>Selection of strengths and weaknesses\<close>

text \<open>
  \<^verbatim>\<open>Array.prototype.sort\<close> with a comparator, as a stable insertion sort: an element is
  placed before the first element of the sorted rest against which the comparator does not
  return a positive number (a NaN counts as zero). For a consistent comparator (the
  weaknesses) this is the order the language prescribes; for an inconsistent one (the
  strengths, whose comparator is not transitive) the language leaves the order to the
  implementation, and only the fact that the result is a rearrangement of the input is used
  below.
\<close>

fun insertBy :: "('a \<Rightarrow> 'a \<Rightarrow> number) \<Rightarrow> 'a \<Rightarrow> 'a list \<Rightarrow> 'a list" where
  "insertBy cmp x [] = [x]"
| "insertBy cmp x (y # ys) =
     (if jsGt (cmp x y) (Finite 0) then y # insertBy cmp x ys else x # y # ys)"

definition sortBy :: "('a \<Rightarrow> 'a \<Rightarrow> number) \<Rightarrow> 'a list \<Rightarrow> 'a list" where
  "sortBy cmp xs = foldr (insertBy cmp) xs []"

definition cognitiveAreas ::
    "AssessmentData \<Rightarrow> (CognitiveField \<times> Pattern) list \<Rightarrow> CognitiveArea list" where
  "cognitiveAreas latestAssessment historicalPatterns =
     [\<lparr>field = CreativityScore,
       rawValue = creativity_score latestAssessment,
       pattern = map_of historicalPatterns CreativityScore,
       areaName = ''Creativity'',
       strengthDescription = ''You excel at generating original ideas and thinking outside the box.'',
       growthDescription = ''Focus on developing creative thinking and innovative problem-solving approaches.''\<rparr>,
      \<lparr>field = ProblemSolving,
       rawValue = problem_solving latestAssessment,
       pattern = map_of historicalPatterns ProblemSolving,
       areaName = ''Problem Solving'',
       strengthDescription = ''You demonstrate strong abilities in finding solutions to complex challenges.'',
       growthDescription = ''Work on developing systematic approaches to problem-solving and analytical thinking.''\<rparr>,
      \<lparr>field = PatternRecognition,
       rawValue = pattern_recognition latestAssessment,
       pattern = map_of historicalPatterns PatternRecognition,
       areaName = ''Pattern Recognition'',
       strengthDescription = ''You can easily identify connections and patterns where others might not see them.'',
       growthDescription = ''Practice identifying patterns and connections in information and experiences.''\<rparr>,
      \<lparr>field = FocusDuration,
       rawValue = focus_duration latestAssessment,
       pattern = map_of historicalPatterns FocusDuration,
       areaName = ''Focus Duration'',
       strengthDescription = ''You maintain excellent concentration for extended periods.'',
       growthDescription = ''Improve your ability to maintain concentration for extended periods.''\<rparr>,
      \<lparr>field = TaskSwitching,
       rawValue = task_switching latestAssessment,
       pattern = map_of historicalPatterns TaskSwitching,
       areaName = ''Task Switching'',
       strengthDescription = ''You transition smoothly between different activities while maintaining focus.'',
       growthDescription = ''Work on transitioning between different activities smoothly without losing focus.''\<rparr>,
      \<lparr>field = EmotionalRegulation,
       rawValue = emotional_regulation latestAssessment,
       pattern = map_of historicalPatterns EmotionalRegulation,
       areaName = ''Emotional Regulation'',
       strengthDescription = ''You manage emotional responses effectively in challenging situations.'',
       growthDescription = ''Develop strategies to better manage emotional responses to stressors.''\<rparr>,
      \<lparr>field = Organization,
       rawValue = organization latestAssessment,
       pattern = map_of historicalPatterns Organization,
       areaName = ''Organization'',
       strengthDescription = ''You maintain excellent organization in tasks, environment, and information.'',
       growthDescription = ''Create systems to better organize your tasks, environment, and information.''\<rparr>,
      \<lparr>field = TimeAwareness,
       rawValue = time_awareness latestAssessment,
       pattern = map_of historicalPatterns TimeAwareness,
       areaName = ''Time Awareness'',
       strengthDescription = ''You have strong skills in estimating and managing time effectively.'',
       growthDescription = ''Build skills to better estimate and manage time for various activities.''\<rparr>]"

definition STRENGTH_THRESHOLD :: number where
  "STRENGTH_THRESHOLD = Finite 70"

text \<open>An element of \<^verbatim>\<open>scoredAreas\<close>: the spread area (\<^verbatim>\<open>...item\<close>, here \<open>cognitiveArea\<close>) and its three computed properties.\<close>

record ScoredArea =
  cognitiveArea :: CognitiveArea
  priorityScore :: number
  isStrength :: bool
  isWeakness :: bool

definition scoredAreas ::
    "AssessmentData list \<Rightarrow> (CognitiveField \<times> Pattern) list \<Rightarrow> CognitiveArea list \<Rightarrow> ScoredArea list" where
  "scoredAreas allAssessments historicalPatterns areas =
     map (\<lambda>it.
            (let priorityScore = calculatePriorityScore it historicalPatterns allAssessments
             in \<lparr>cognitiveArea = it,
                 priorityScore = priorityScore,
                 isStrength = jsGe priorityScore STRENGTH_THRESHOLD,
                 isWeakness = jsLt priorityScore STRENGTH_THRESHOLD\<rparr>))
         areas"

text \<open>\<^verbatim>\<open>x.pattern?.consistency || 0\<close>\<close>

definition consistencyOrZero :: "ScoredArea \<Rightarrow> number" where
  "consistencyOrZero x =
     (case pattern (cognitiveArea x) of
        None \<Rightarrow> Finite 0
      | Some p \<Rightarrow> if truthy (consistency p) then consistency p else Finite 0)"

definition strengthCompare :: "ScoredArea \<Rightarrow> ScoredArea \<Rightarrow> number" where
  "strengthCompare a b =
     (if jsGt (mathAbs (jsSub (priorityScore a) (priorityScore b))) (Finite 5)
      then jsSub (priorityScore b) (priorityScore a)
      else jsSub (consistencyOrZero b) (consistencyOrZero a))"

definition weaknessCompare :: "ScoredArea \<Rightarrow> ScoredArea \<Rightarrow> number" where
  "weaknessCompare a b =
     (let aImprovement =
            (if (case pattern (cognitiveArea a) of None \<Rightarrow> False | Some p \<Rightarrow> trend p = Improving)
             then Finite 10 else Finite 0);
          bImprovement =
            (if (case pattern (cognitiveArea b) of None \<Rightarrow> False | Some p \<Rightarrow> trend p = Improving)
             then Finite 10 else Finite 0);
          aScore = jsAdd (priorityScore a) aImprovement;
          bScore = jsAdd (priorityScore b) bImprovement
      in jsSub aScore bScore)"

definition potentialStrengths :: "ScoredArea list \<Rightarrow> Insight list" where
  "potentialStrengths scored =
     map (\<lambda>x. \<lparr>area = areaName (cognitiveArea x), description = strengthDescription (cognitiveArea x)\<rparr>)
       (take 3 (sortBy strengthCompare (filter isStrength scored)))"

definition potentialWeaknesses :: "ScoredArea list \<Rightarrow> Insight list" where
  "potentialWeaknesses scored =
     map (\<lambda>x. \<lparr>area = areaName (cognitiveArea x), description = growthDescription (cognitiveArea x)\<rparr>)
       (take 3 (sortBy weaknessCompare (filter isWeakness scored)))"

section \<open>The narrative\<close>

text \<open>\<^verbatim>\<open>xs.join(sep)\<close>\<close>

fun join :: "string \<Rightarrow> string list \<Rightarrow> string" where
  "join sep [] = []"
| "join sep [x] = x"
| "join sep (x # y # ys) = x @ sep @ join sep (y # ys)"

text \<open>The decimal numeral a template literal prints for a count.\<close>

fun showNat :: "nat \<Rightarrow> string" where
  "showNat n =
     (if n < 10 then [''0123456789'' ! n]
      else showNat (n div 10) @ [''0123456789'' ! (n mod 10)])"

declare showNat.simps [simp del]

text \<open>
  \<^verbatim>\<open>Object.entries(historicalPatterns)\<close> filtered by an improving trend, each field mapped to
  the name of its area (\<^verbatim>\<open>cognitiveAreas.find(...)?.area\<close>), the misses dropped by
  \<^verbatim>\<open>filter(Boolean)\<close>.
\<close>

definition improvingAreas ::
    "(CognitiveField \<times> Pattern) list \<Rightarrow> CognitiveArea list \<Rightarrow> string list" where
  "improvingAreas historicalPatterns areas =
     filter (\<lambda>name. name \<noteq> [])
       (map (\<lambda>(f, p). case find (\<lambda>a. field a = f) areas of None \<Rightarrow> [] | Some a \<Rightarrow> areaName a)
          (filter (\<lambda>(f, p). trend p = Improving) historicalPatterns))"

definition helpfulTechniques :: "(string \<times> TechniqueStats) list \<Rightarrow> nat" where
  "helpfulTechniques techniquePatterns =
     length (filter (\<lambda>(k, stats). helpful stats > notHelpful stats \<and> helpful stats > 0)
               techniquePatterns)"

definition strengthsPhrase :: "Insight list \<Rightarrow> string" where
  "strengthsPhrase strengths_list =
     (if length strengths_list > 0
      then ''your key strengths are '' @ join '', '' (map area strengths_list)
      else ''you're developing strengths across multiple areas'')"

definition weaknessesPhrase :: "Insight list \<Rightarrow> string" where
  "weaknessesPhrase weaknesses_list =
     (if length weaknesses_list > 0
      then ''focusing on '' @ join '', '' (map area weaknesses_list) @
           '' will help you progress further''
      else ''you're performing well across all assessed areas'')"

definition patternPhrase :: "string list \<Rightarrow> string" where
  "patternPhrase improving =
     (if length improving > 0
      then '' Your '' @ join '' and '' improving @ '' '' @
           (if length improving > 1 then ''are'' else ''is'') @
           '' showing positive trends over time.''
      else [])"

definition techniquePhrase :: "nat \<Rightarrow> string" where
  "techniquePhrase n =
     (if n > 0
      then '' Based on your interactions, you've found '' @ showNat n @ '' technique'' @
           (if n > 1 then ''s'' else []) @ '' particularly helpful.''
      else [])"

definition insightTemplates ::
    "nat \<Rightarrow> string \<Rightarrow> string \<Rightarrow> string \<Rightarrow> string \<Rightarrow> string \<Rightarrow> string list" where
  "insightTemplates assessmentCount formattedDate sPhrase wPhrase pPhrase tPhrase =
     (let plural = (if assessmentCount > 1 then ''s'' else []) in
      [''Based on '' @ showNat assessmentCount @ '' assessment'' @ plural @
         '' and your latest results from '' @ formattedDate @ '', '' @ sPhrase @ ''. '' @
         wPhrase @ ''.'' @ pPhrase @ tPhrase,
       ''Your journey shows that '' @ sPhrase @ '', with data from '' @
         showNat assessmentCount @ '' assessment'' @ plural @ '' including '' @ formattedDate @
         ''. To continue growing, '' @ wPhrase @ ''.'' @ pPhrase @ tPhrase,
       ''Analysis of your '' @ showNat assessmentCount @ '' assessment'' @ plural @
         '' (latest: '' @ formattedDate @ '') reveals '' @ sPhrase @
         ''. For optimal progress, '' @ wPhrase @ ''.'' @ pPhrase @ tPhrase])"

section \<open>getStrengthsAndWeaknesses\<close>

text \<open>
  The collaborators. A query of the Supabase client resolves to a pair of \<^verbatim>\<open>data\<close> and
  \<^verbatim>\<open>error\<close>, each possibly \<^verbatim>\<open>null\<close>.
\<close>

record 'a Response =
  data :: "'a option"
  error :: "string option"

text \<open>
  A row of \<^verbatim>\<open>technique_interactions\<close> before the type guard: each selected column is a
  string, \<^verbatim>\<open>null\<close>, or a value of another type.
\<close>

datatype Json = JString string | JNull | JOther

record RawInteraction =
  raw_technique_id :: Json
  raw_technique_title :: Json
  raw_feedback :: Json
  raw_created_at :: Json

text \<open>
  The type guard of the \<^verbatim>\<open>filter\<close> in front of \<^verbatim>\<open>analyzeTechniquePatterns\<close>: a row
  (\<^const>\<open>None\<close> is a \<^verbatim>\<open>null\<close> row) is kept when its id, title and timestamp are strings and
  its feedback is one of the three allowed values.
\<close>

fun validInteraction :: "RawInteraction option \<Rightarrow> TechniqueInteraction option" where
  "validInteraction None = None"
| "validInteraction (Some r) =
     (case (raw_technique_id r, raw_technique_title r, raw_created_at r) of
        (JString tid, JString title, JString created) \<Rightarrow>
          (if raw_feedback r = JString ''helpful'' then
             Some \<lparr>technique_id = tid, technique_title = title,
                   feedback = Some Helpful, created_at = created\<rparr>
           else if raw_feedback r = JString ''not-helpful'' then
             Some \<lparr>technique_id = tid, technique_title = title,
                   feedback = Some NotHelpful, created_at = created\<rparr>
           else if raw_feedback r = JNull then
             Some \<lparr>technique_id = tid, technique_title = title,
                   feedback = None, created_at = created\<rparr>
           else None)
      | _ \<Rightarrow> None)"

record SavedInsight =
  saved_id :: string
  saved_created_at :: string

text \<open>The row handed to \<^verbatim>\<open>insert\<close>.\<close>

record InsightToSave =
  user_id :: string
  general_insight :: string
  save_strengths :: "Insight list"
  save_weaknesses :: "Insight list"
  save_assessment_id :: string

text \<open>
  What one call meets outside the program: the answers of the three queries, the date
  formatter (\<^verbatim>\<open>format(new Date(s), 'dd/MM/yyyy')\<close> of date-fns, which throws on an invalid
  date: \<^const>\<open>None\<close>), and the draw of \<^verbatim>\<open>Math.random()\<close>, a number from 0 up to but not
  including 1. The hour of the clock is read by the source into \<^verbatim>\<open>timeContext\<close>, which no
  template uses; it is not part of the model.
\<close>

record Env =
  assessmentsResponse :: "AssessmentData list Response"
  interactionsResponse :: "RawInteraction option list Response"
  insertResponse :: "SavedInsight Response"
  formatDate :: "string \<Rightarrow> string option"
  random :: real

text \<open>The calls to collaborators and to the console, in the order they are made.\<close>

datatype Effect =
    SelectAssessments string
  | SelectInteractions string
  | InsertInsight InsightToSave
  | ConsoleError string

definition fallbackInsights :: UserInsights where
  "fallbackInsights =
     \<lparr>insights_id = None, strengths = [], weaknesses = [],
      generalInsight = ''We're having trouble analyzing your data. Please try again later.'',
      createdAt = None, assessmentId = None\<rparr>"

definition noAssessmentInsights :: UserInsights where
  "noAssessmentInsights =
     \<lparr>insights_id = None, strengths = [], weaknesses = [],
      generalInsight = ''Complete an assessment to see personalized insights.'',
      createdAt = None, assessmentId = None\<rparr>"

text \<open>
  The part of the \<^verbatim>\<open>try\<close> block after the second query, for a non-empty list of
  assessments. The result is \<^const>\<open>None\<close> when the date formatter throws, which the
  \<^verbatim>\<open>catch\<close> of the caller turns into the fallback.
\<close>

definition analyze ::
    "string \<Rightarrow> Env \<Rightarrow> AssessmentData list \<Rightarrow> (UserInsights \<times> Effect list) option" where
  "analyze userId env allAssessments =
     (let techniqueInteractions = data (interactionsResponse env);
          latestAssessment = allAssessments ! 0;
          historicalPatterns = analyzeHistoricalPatterns allAssessments;
          techniquePatterns =
            analyzeTechniquePatterns
              (List.map_filter validInteraction
                 (case techniqueInteractions of None \<Rightarrow> [] | Some rows \<Rightarrow> rows));
          areas = cognitiveAreas latestAssessment historicalPatterns;
          scored = scoredAreas allAssessments historicalPatterns areas;
          strengths_list = take 3 (potentialStrengths scored);
          weaknesses_list = take 3 (potentialWeaknesses scored)
      in case formatDate env (completed_at latestAssessment) of
           None \<Rightarrow> None
         | Some formattedDate \<Rightarrow>
             (let assessmentCount = length allAssessments;
                  templates =
                    insightTemplates assessmentCount formattedDate
                      (strengthsPhrase strengths_list) (weaknessesPhrase weaknesses_list)
                      (patternPhrase (improvingAreas historicalPatterns areas))
                      (techniquePhrase (helpfulTechniques techniquePatterns));
                  i = nat \<lfloor>random env * real (length templates)\<rfloor>;
                  general = (if i < length templates then templates ! i else []);
                  insightToSave =
                    \<lparr>user_id = userId, general_insight = general,
                     save_strengths = strengths_list, save_weaknesses = weaknesses_list,
                     save_assessment_id = assessment_id latestAssessment\<rparr>;
                  savedInsight = data (insertResponse env);
                  saveError = error (insertResponse env)
              in Some
                   (\<lparr>insights_id = map_option saved_id savedInsight,
                     strengths = strengths_list,
                     weaknesses = weaknesses_list,
                     generalInsight = general,
                     createdAt = map_option saved_created_at savedInsight,
                     assessmentId = Some (assessment_id latestAssessment)\<rparr>,
                    [InsertInsight insightToSave] @
                    (if saveError \<noteq> None then [ConsoleError ''Error saving insight history:'']
                     else []))))"

text \<open>
  The exported function: the result and the effects of one call. A \<^verbatim>\<open>throw\<close> inside the
  \<^verbatim>\<open>try\<close> block ends in the \<^verbatim>\<open>catch\<close>, which logs and returns the fallback.
\<close>

definition getStrengthsAndWeaknesses :: "string \<Rightarrow> Env \<Rightarrow> UserInsights \<times> Effect list" where
  "getStrengthsAndWeaknesses userId env =
     (let allAssessments = data (assessmentsResponse env);
          assessmentError = error (assessmentsResponse env)
      in if assessmentError \<noteq> None then
           (fallbackInsights,
            [SelectAssessments userId,
             ConsoleError ''Error fetching assessment data:'',
             ConsoleError ''Error in getStrengthsAndWeaknesses:''])
         else
           (case allAssessments of
              None \<Rightarrow> (noAssessmentInsights, [SelectAssessments userId])
            | Some rows \<Rightarrow>
                if length rows = 0 then (noAssessmentInsights, [SelectAssessments userId])
                else
                  (let techniqueError = error (interactionsResponse env);
                       fetched =
                         [SelectAssessments userId, SelectInteractions userId] @
                         (if techniqueError \<noteq> None
                          then [ConsoleError ''Error fetching technique interactions:'']
                          else [])
                   in case analyze userId env rows of
                        None \<Rightarrow>
                          (fallbackInsights,
                           fetched @ [ConsoleError ''Error in getStrengthsAndWeaknesses:''])
                      | Some (result, effects) \<Rightarrow> (result, fetched @ effects))))"

section \<open>The statistics in the words of the specification\<close>


definition mean :: "real list \<Rightarrow> real" where
  "mean xs = sum_list xs / real (length xs)"

definition populationStdDev :: "real list \<Rightarrow> real" where
  "populationStdDev xs = sqrt ((\<Sum>x\<leftarrow>xs. (x - mean xs)\<^sup>2) / real (length xs))"






section \<open>Auxiliary definitions for the statements\<close>

text \<open>
  The scored areas that \<open>analyze\<close> computes for a list of assessments: the composition of
  \<open>analyzeHistoricalPatterns\<close>, \<open>cognitiveAreas\<close> and \<open>scoredAreas\<close> as the source chains them.
\<close>

definition scoredAreasOf :: "AssessmentData list \<Rightarrow> ScoredArea list" where
  "scoredAreasOf rows =
     (let historicalPatterns = analyzeHistoricalPatterns rows
      in scoredAreas rows historicalPatterns (cognitiveAreas (rows ! 0) historicalPatterns))"

text \<open>
  The element of \<open>cognitiveAreas\<close> for a field, and the priority score that \<open>scoredAreas\<close>
  gives it.
\<close>

fun fieldIndex :: "CognitiveField \<Rightarrow> nat" where
  "fieldIndex CreativityScore = 0"
| "fieldIndex ProblemSolving = 1"
| "fieldIndex PatternRecognition = 2"
| "fieldIndex FocusDuration = 3"
| "fieldIndex TaskSwitching = 4"
| "fieldIndex EmotionalRegulation = 5"
| "fieldIndex Organization = 6"
| "fieldIndex TimeAwareness = 7"

definition areaOf ::
    "AssessmentData \<Rightarrow> (CognitiveField \<times> Pattern) list \<Rightarrow> CognitiveField \<Rightarrow> CognitiveArea" where
  "areaOf latestAssessment historicalPatterns f =
     cognitiveAreas latestAssessment historicalPatterns ! fieldIndex f"

definition fieldScore :: "AssessmentData list \<Rightarrow> CognitiveField \<Rightarrow> number" where
  "fieldScore rows f =
     calculatePriorityScore (areaOf (rows ! 0) (analyzeHistoricalPatterns rows) f)
       (analyzeHistoricalPatterns rows) rows"

text \<open>A finite number that rounding leaves as it is: a finite double.\<close>

fun isFiniteDouble :: "number \<Rightarrow> bool" where
  "isFiniteDouble (Finite r) = (round64 r = Finite r)"
| "isFiniteDouble a = False"

text \<open>
  A number that is not NaN and, when finite, a multiple of the smallest positive double:
  the shape of every sum of two numbers that is not NaN.
\<close>

fun onGrid :: "number \<Rightarrow> bool" where
  "onGrid (Finite r) = (\<exists>m :: int. r = of_int m * pow2 (- 1074))"
| "onGrid NaN = False"
| "onGrid a = True"

text \<open>
  The number of interactions of a technique that satisfy a predicate, and the statistics and
  the mapping that counting gives.
\<close>

definition countOf :: "(TechniqueInteraction \<Rightarrow> bool) \<Rightarrow> string \<Rightarrow> TechniqueInteraction list \<Rightarrow> nat" where
  "countOf P k interactions = length (filter (\<lambda>i. technique_id i = k \<and> P i) interactions)"

definition expectedStats :: "string \<Rightarrow> TechniqueInteraction list \<Rightarrow> TechniqueStats" where
  "expectedStats k interactions =
     \<lparr>helpful = countOf (\<lambda>i. feedback i = Some Helpful) k interactions,
      notHelpful = countOf (\<lambda>i. feedback i = Some NotHelpful) k interactions,
      totalInteractions = countOf (\<lambda>i. True) k interactions,
      categories = []\<rparr>"

definition expectedLookup :: "TechniqueInteraction list \<Rightarrow> string \<Rightarrow> TechniqueStats option" where
  "expectedLookup interactions k =
     (if k \<in> technique_id ` set interactions \<and> k \<notin> set objectPrototypeKeys
      then Some (expectedStats k interactions) else None)"

subsection \<open>Concrete inputs\<close>

text \<open>
  An assessment with one value for creativity and one for every other dimension; the sample
  with the others at 80; one with eight different values; and the collaborators of the test
  suite: both queries succeed, the insert returns \<^verbatim>\<open>test-id\<close>.
\<close>

definition assessmentOf :: "real \<Rightarrow> real \<Rightarrow> AssessmentData" where
  "assessmentOf c v =
     \<lparr>assessment_id = ''a'', completed_at = ''2024-01-01'',
      creativity_score = Finite c, problem_solving = Finite v, pattern_recognition = Finite v,
      focus_duration = Finite v, task_switching = Finite v, emotional_regulation = Finite v,
      organization = Finite v, time_awareness = Finite v\<rparr>"

definition sample :: "real \<Rightarrow> AssessmentData" where
  "sample v = assessmentOf v 80"

definition mixedRecord :: AssessmentData where
  "mixedRecord =
     \<lparr>assessment_id = ''1'', completed_at = ''2024-01-01'',
      creativity_score = Finite 30, problem_solving = Finite 10,
      pattern_recognition = Finite 50, focus_duration = Finite 20,
      task_switching = Finite 90, emotional_regulation = Finite 60,
      organization = Finite 40, time_awareness = Finite 95\<rparr>"

text \<open>
  Four rows, newest first, with creativity 50, 50, 60, 60 and every other dimension at one
  value.
\<close>

definition improvingRows :: "real \<Rightarrow> AssessmentData list" where
  "improvingRows v = [assessmentOf 50 v, assessmentOf 50 v, assessmentOf 60 v, assessmentOf 60 v]"

text \<open>
  Three rows of finite doubles near the top of the range, newest first:
  \<open>- 2 ^ 1023\<close>, then twice \<open>3 * 2 ^ 1022\<close>, in every dimension.
\<close>

definition hugeRows :: "AssessmentData list" where
  "hugeRows =
     [assessmentOf (- (2 ^ 1023)) (- (2 ^ 1023)),
      assessmentOf (3 * 2 ^ 1022) (3 * 2 ^ 1022),
      assessmentOf (3 * 2 ^ 1022) (3 * 2 ^ 1022)]"

definition sampleEnv :: "AssessmentData list \<Rightarrow> Env" where
  "sampleEnv rows =
     \<lparr>assessmentsResponse = \<lparr>data = Some rows, error = None\<rparr>,
      interactionsResponse = \<lparr>data = Some [], error = None\<rparr>,
      insertResponse =
        \<lparr>data = Some \<lparr>saved_id = ''test-id'', saved_created_at = ''2024-01-01''\<rparr>, error = None\<rparr>,
      formatDate = (\<lambda>s. Some ''01/01/2024''),
      random = 0\<rparr>"

section \<open>Properties\<close>

subsection \<open>Rounding\<close>

lemma pow2_powr: "pow2 e = 2 powr (of_int e)"
proof (cases "0 \<le> e")
  case True
  then show ?thesis
    by (simp add: pow2_def powr_real_of_int)
next
  case False
  then show ?thesis
    by (simp add: pow2_def powr_real_of_int field_simps)
qed

lemma pow2_pos: "0 < pow2 e"
  by (simp add: pow2_powr)

lemma pow2_add: "pow2 (a + b) = pow2 a * pow2 b"
  by (simp add: pow2_powr powr_add)

lemma pow2_mono: "a \<le> b \<Longrightarrow> pow2 a \<le> pow2 b"
  by (simp add: pow2_powr)

lemma exponent_eq:
  assumes "pow2 e \<le> \<bar>x\<bar>" and "\<bar>x\<bar> < pow2 (e + 1)" and "- 1022 \<le> e"
  shows "exponent x = e"
proof -
  have "0 < pow2 e" by (rule pow2_pos)
  with assms(1) have nz: "x \<noteq> 0" by auto
  then have "0 < \<bar>x\<bar>" by simp
  moreover have "2 powr (of_int e) \<le> \<bar>x\<bar> \<and> \<bar>x\<bar> < 2 powr (of_int (e + 1))"
    using assms(1,2) by (simp add: pow2_powr)
  ultimately have "\<lfloor>log 2 \<bar>x\<bar>\<rfloor> = e"
    using floor_log_eq_powr_iff [of "\<bar>x\<bar>" 2 e] by simp
  with nz assms(3) show ?thesis
    by (simp add: exponent_def)
qed

lemma round64_eval:
  assumes "pow2 e \<le> \<bar>x\<bar>" and "\<bar>x\<bar> < pow2 (e + 1)" and "- 1022 \<le> e"
  shows "round64 x =
     (let r = of_int (roundTiesToEven (x / pow2 (e - 52))) * pow2 (e - 52)
      in if r \<ge> pow2 1024 then PosInfinity
         else if r \<le> - pow2 1024 then NegInfinity
         else Finite r)"
  using exponent_eq [OF assms] by (simp add: round64_def Let_def)

lemma round64_zero: "round64 0 = Finite 0"
  by (simp add: round64_def exponent_def roundTiesToEven_def pow2_def)

lemma round64_not_NaN: "round64 x \<noteq> NaN"
  by (simp add: round64_def Let_def)

lemma exponent_ge: "- 1022 \<le> exponent x"
  by (simp add: exponent_def)

lemma exponent_le:
  assumes "x \<noteq> 0"
  shows "pow2 (exponent x) \<le> max \<bar>x\<bar> (pow2 (- 1022))"
proof (cases "\<lfloor>log 2 \<bar>x\<bar>\<rfloor> \<le> - 1022")
  case True
  with assms have "exponent x = - 1022" by (simp add: exponent_def)
  then show ?thesis by simp
next
  case False
  with assms have e: "exponent x = \<lfloor>log 2 \<bar>x\<bar>\<rfloor>" by (simp add: exponent_def)
  have "0 < \<bar>x\<bar>" using assms by simp
  then have "2 powr (of_int \<lfloor>log 2 \<bar>x\<bar>\<rfloor>) \<le> \<bar>x\<bar>"
    using floor_log_eq_powr_iff [of "\<bar>x\<bar>" 2 "\<lfloor>log 2 \<bar>x\<bar>\<rfloor>"] by simp
  then show ?thesis by (simp add: e pow2_powr)
qed

lemma roundTiesToEven_ge_one: "1 \<le> y \<Longrightarrow> 1 \<le> roundTiesToEven y"
proof -
  assume "1 \<le> y"
  then have "1 \<le> \<lfloor>y\<rfloor>" by simp
  then show ?thesis
    by (simp add: roundTiesToEven_def Let_def)
qed

lemma roundTiesToEven_nonpos: "y \<le> 0 \<Longrightarrow> roundTiesToEven y \<le> 0"
proof -
  assume y: "y \<le> 0"
  then have f: "\<lfloor>y\<rfloor> \<le> 0" by simp
  show ?thesis
  proof (cases "\<lfloor>y\<rfloor> = 0")
    case True
    then have "0 \<le> y" by (metis of_int_floor_le of_int_0)
    with y have "y = 0" by simp
    then show ?thesis by (simp add: roundTiesToEven_def)
  next
    case False
    with f have "\<lfloor>y\<rfloor> + 1 \<le> 0" by linarith
    with f show ?thesis
      by (simp add: roundTiesToEven_def Let_def)
  qed
qed

lemma round64_onGrid: "onGrid (round64 x)"
proof -
  define e where "e = exponent x"
  define m where "m = roundTiesToEven (x / pow2 (e - 52))"
  have "0 \<le> e + 1022" using exponent_ge [of x] by (simp add: e_def)
  have "pow2 (e - 52) = pow2 (e + 1022) * pow2 (- 1074)"
    using pow2_add [of "e + 1022" "- 1074"] by simp
  also have "pow2 (e + 1022) = of_int (2 ^ nat (e + 1022))"
    using \<open>0 \<le> e + 1022\<close> by (simp add: pow2_def)
  finally have "of_int m * pow2 (e - 52) = of_int (m * 2 ^ nat (e + 1022)) * pow2 (- 1074)"
    by simp
  then have "onGrid (Finite (of_int m * pow2 (e - 52)))"
    unfolding onGrid.simps by blast
  then show ?thesis
    by (simp add: round64_def Let_def e_def m_def)
qed

lemma round64_positive:
  assumes "pow2 (- 1074) \<le> x"
  shows "jsLt (Finite 0) (round64 x)"
proof -
  define e where "e = exponent x"
  define u where "u = pow2 (e - 52)"
  have upos: "0 < u" by (simp add: u_def pow2_pos)
  have xpos: "0 < x" using assms pow2_pos [of "- 1074"] by linarith
  have "u \<le> x"
  proof (cases "e = - 1022")
    case True
    then show ?thesis using assms by (simp add: u_def)
  next
    case False
    then have "- 1022 < e" using exponent_ge [of x] by (simp add: e_def)
    have "pow2 e \<le> max \<bar>x\<bar> (pow2 (- 1022))"
      using exponent_le [of x] xpos by (simp add: e_def)
    moreover have "pow2 (- 1022) < pow2 e"
      using \<open>- 1022 < e\<close> by (simp add: pow2_powr)
    ultimately have "pow2 e \<le> x" using xpos by (simp add: max_def split: if_splits)
    moreover have "u \<le> pow2 e"
      unfolding u_def by (rule pow2_mono) simp
    ultimately show ?thesis by linarith
  qed
  then have "1 \<le> x / u" using upos by (simp add: field_simps)
  then have "1 \<le> roundTiesToEven (x / u)" by (rule roundTiesToEven_ge_one)
  then have "0 < of_int (roundTiesToEven (x / u)) * u"
    using upos by simp
  then show ?thesis
    using pow2_pos [of 1024]
    by (simp add: round64_def Let_def e_def u_def)
qed

lemma round64_nonpositive:
  assumes "x \<le> 0"
  shows "\<not> jsLt (Finite 0) (round64 x)"
proof -
  define u where "u = pow2 (exponent x - 52)"
  have upos: "0 < u" by (simp add: u_def pow2_pos)
  then have "x / u \<le> 0" using assms by (simp add: field_simps)
  then have "roundTiesToEven (x / u) \<le> 0" by (rule roundTiesToEven_nonpos)
  then have "of_int (roundTiesToEven (x / u)) * u \<le> 0"
    using upos by (simp add: mult_le_0_iff)
  then show ?thesis
    using pow2_pos [of 1024]
    by (auto simp: round64_def Let_def u_def)
qed

lemma grid_difference:
  assumes "a = of_int m * pow2 (- 1074)" and "b = of_int n * pow2 (- 1074)" and "b < a"
  shows "pow2 (- 1074) \<le> a - b"
proof -
  have p: "0 < pow2 (- 1074)" by (rule pow2_pos)
  from assms have "of_int n * pow2 (- 1074) < of_int m * pow2 (- 1074)" by simp
  with p have "n < m" by (simp add: mult_less_cancel_right)
  then have "1 \<le> m - n" by simp
  then have "(1::real) \<le> of_int (m - n)" by (metis of_int_1_le_iff)
  then have "1 * pow2 (- 1074) \<le> of_int (m - n) * pow2 (- 1074)"
    using p by (simp add: mult_le_cancel_right)
  then show ?thesis
    by (simp add: assms(1,2) algebra_simps)
qed

lemma compare_by_difference:
  assumes "onGrid a" and "onGrid b"
  shows "jsGt (jsSub a b) (Finite 0) = jsLt b a"
proof (cases a; cases b)
  fix x y
  assume a: "a = Finite x" and b: "b = Finite y"
  from assms a b obtain m n :: int
    where x: "x = of_int m * pow2 (- 1074)" and y: "y = of_int n * pow2 (- 1074)"
    by auto
  show ?thesis
  proof (cases "y < x")
    case True
    from grid_difference [OF x y True] have "jsLt (Finite 0) (round64 (x - y))"
      by (rule round64_positive)
    with True show ?thesis by (simp add: a b jsGt_def jsSub_def)
  next
    case False
    then have "x - y \<le> 0" by simp
    then have "\<not> jsLt (Finite 0) (round64 (x - y))" by (rule round64_nonpositive)
    with False show ?thesis by (simp add: a b jsGt_def jsSub_def)
  qed
qed (use assms in \<open>simp_all add: jsGt_def jsSub_def\<close>)

lemma jsAdd_onGrid: "jsAdd a b \<noteq> NaN \<Longrightarrow> onGrid (jsAdd a b)"
  by (cases a; cases b) (simp_all add: round64_onGrid)

lemma jsLe_refl: "a \<noteq> NaN \<Longrightarrow> jsLe a a"
  by (cases a) (simp_all add: jsLe_def)

lemma jsLe_trans: "jsLe a b \<Longrightarrow> jsLe b c \<Longrightarrow> jsLe a c"
  by (cases a; cases b; cases c) (simp_all add: jsLe_def)

lemma jsLe_total: "a \<noteq> NaN \<Longrightarrow> b \<noteq> NaN \<Longrightarrow> \<not> jsLt b a \<Longrightarrow> jsLe a b"
  by (simp add: jsLe_def)

lemma jsLt_imp_jsLe: "jsLt a b \<Longrightarrow> jsLe a b"
  by (cases a; cases b) (simp_all add: jsLe_def)

lemma jsLt_not_NaN: "jsLt a b \<Longrightarrow> a \<noteq> NaN \<and> b \<noteq> NaN"
  by (cases a; cases b) simp_all

lemma jsLt_jsGe_exclusive: "jsLt a b \<Longrightarrow> \<not> jsGe a b"
  by (cases a; cases b) (simp_all add: jsGe_def jsLe_def)

lemma jsGe_or_jsLt: "a \<noteq> NaN \<Longrightarrow> b \<noteq> NaN \<Longrightarrow> jsGe a b \<or> jsLt a b"
  by (cases a; cases b) (auto simp: jsGe_def jsLe_def)

lemmas round64_evals =
  round64_eval [where e = "-4"] round64_eval [where e = "-3"] round64_eval [where e = "-2"]
  round64_eval [where e = "-1"] round64_eval [where e = 0] round64_eval [where e = 1]
  round64_eval [where e = 2] round64_eval [where e = 3] round64_eval [where e = 4]
  round64_eval [where e = 5] round64_eval [where e = 6] round64_eval [where e = 7]
  round64_eval [where e = 8]

lemmas number_evals =
  round64_evals round64_zero pow2_def roundTiesToEven_def Let_def jsSub_def jsGt_def jsGe_def
  jsLe_def mathMax_def mathMin_def ofLength_def infinityOfSign_def

subsection \<open>Historical patterns\<close>





lemma analyzeHistoricalPatterns_nonempty:
  "assessments \<noteq> [] \<Longrightarrow>
   analyzeHistoricalPatterns assessments = map (\<lambda>f. (f, fieldPattern assessments f)) cognitiveFields"
  by (simp add: analyzeHistoricalPatterns_def cognitiveFields_def)

lemma map_of_analyzeHistoricalPatterns:
  "assessments \<noteq> [] \<Longrightarrow>
   map_of (analyzeHistoricalPatterns assessments) f = Some (fieldPattern assessments f)"
  by (cases f) (simp_all add: analyzeHistoricalPatterns_nonempty cognitiveFields_def)

lemma sqrt_25: "sqrt 25 = 5"
  using real_sqrt_abs [of 5] by simp





lemma jsAdd_zero_left: "isFiniteDouble v \<Longrightarrow> jsAdd (Finite 0) v = v"
  by (cases v) simp_all

lemma fieldPattern_single:
  assumes "isFiniteDouble (getField a f)"
  shows "fieldPattern [a] f =
           \<lparr>average = getField a f, trend = Stable, consistency = Finite 100\<rparr>"
proof -
  from assms obtain r where v: "getField a f = Finite r" and r: "round64 r = Finite r"
    by (cases "getField a f") simp_all
  show ?thesis
    by (simp add: fieldPattern_def valuesPattern_def fieldTrend_def reduceSum_def v r
        number_evals)
qed

text \<open>
  C10. For exactly one assessment record whose value for a dimension is a finite double, the
  dimension has a pattern, with that value as average, a stable trend and consistency
  exactly 100. Hence in \<open>calculatePriorityScore\<close> on that single record the consistency
  bonus of 8 is added, and when the average is not zero the historical blend is applied,
  with the weight one tenth and its complement as doubles.
\<close>

theorem C10_single_record:
  assumes "isFiniteDouble (getField a f)"
  shows "map_of (analyzeHistoricalPatterns [a]) f =
           Some \<lparr>average = getField a f, trend = Stable, consistency = Finite 100\<rparr> \<and>
         calculatePriorityScore
           \<lparr>field = f, rawValue = v, pattern = map_of (analyzeHistoricalPatterns [a]) f,
            areaName = n, strengthDescription = sd, growthDescription = gd\<rparr> ps [a] =
           (if getField a f \<noteq> Finite 0
            then mathMax (Finite 0) (mathMin (Finite 100)
                   (jsAdd (jsMul (jsAdd v (Finite 8)) (Finite (8106479329266893 / 2 ^ 53)))
                      (jsMul (getField a f) (Finite (3602879701896397 / 2 ^ 55)))))
            else mathMax (Finite 0) (mathMin (Finite 100) (jsAdd v (Finite 8))))"
proof -
  from assms obtain r where v: "getField a f = Finite r"
    by (cases "getField a f") simp_all
  have w: "mathMin (jsDiv (ofLength (length [a])) (Finite 10)) (round64 (3 / 10)) =
           Finite (3602879701896397 / 2 ^ 55)"
    by (simp add: number_evals)
  have w': "jsSub (Finite 1) (Finite (3602879701896397 / 2 ^ 55)) =
            Finite (8106479329266893 / 2 ^ 53)"
    by (simp add: number_evals)
  show ?thesis
    using w w'
    by (simp add: map_of_analyzeHistoricalPatterns fieldPattern_single [OF assms]
        calculatePriorityScore_def Let_def v jsGt_def)
qed

text \<open>C10 at a record with creativity score 85.\<close>

theorem C10_witness:
  "isFiniteDouble (getField (sample 85) CreativityScore) \<and>
   map_of (analyzeHistoricalPatterns [sample 85]) CreativityScore =
     Some \<lparr>average = Finite 85, trend = Stable, consistency = Finite 100\<rparr>"
  using C10_single_record [of "sample 85" CreativityScore]
  by (simp add: sample_def assessmentOf_def number_evals)

subsection \<open>Sorting and selection\<close>

lemma mset_insertBy: "mset (insertBy cmp x ys) = add_mset x (mset ys)"
  by (induction ys) simp_all

lemma mset_sortBy: "mset (sortBy cmp xs) = mset xs"
  by (induction xs) (simp_all add: sortBy_def mset_insertBy)

lemma set_sortBy: "set (sortBy cmp xs) = set xs"
  using mset_sortBy [of cmp xs] by (metis set_mset_mset)

lemma length_sortBy: "length (sortBy cmp xs) = length xs"
  using mset_sortBy [of cmp xs] by (metis size_mset)

lemma set_insertBy: "set (insertBy cmp x ys) = insert x (set ys)"
  using mset_insertBy [of cmp x ys] by (metis set_mset_mset set_mset_add_mset_insert)

lemma sortBy_Nil: "sortBy cmp [] = []"
  by (simp add: sortBy_def)

lemma sortBy_Cons: "sortBy cmp (x # xs) = insertBy cmp x (sortBy cmp xs)"
  by (simp add: sortBy_def)

text \<open>
  A comparator that returns the difference of a key sorts by that key, when the keys are
  sums of numbers and none is NaN.
\<close>

lemma sorted_insertBy_key:
  assumes cmp: "\<And>a b. cmp a b = jsSub (key a) (key b)"
    and grid: "onGrid (key x)" "\<And>y. y \<in> set ys \<Longrightarrow> onGrid (key y)"
    and sorted: "sorted_wrt (\<lambda>a b. jsLe (key a) (key b)) ys"
  shows "sorted_wrt (\<lambda>a b. jsLe (key a) (key b)) (insertBy cmp x ys)"
  using grid(2) sorted
proof (induction ys)
  case Nil
  then show ?case by simp
next
  case (Cons y ys)
  have gy: "onGrid (key y)" using Cons.prems(1) by simp
  have nn: "key x \<noteq> NaN" "key y \<noteq> NaN"
    using grid(1) gy by auto
  have c: "jsGt (cmp x y) (Finite 0) = jsLt (key y) (key x)"
    unfolding cmp by (rule compare_by_difference [OF grid(1) gy])
  show ?case
  proof (cases "jsLt (key y) (key x)")
    case True
    then have yx: "jsLe (key y) (key x)" by (rule jsLt_imp_jsLe)
    have "sorted_wrt (\<lambda>a b. jsLe (key a) (key b)) (insertBy cmp x ys)"
      using Cons by simp
    with True yx Cons.prems(2) show ?thesis
      by (auto simp: c set_insertBy)
  next
    case False
    then have xy: "jsLe (key x) (key y)"
      using nn by (simp add: jsLe_def)
    have "\<forall>z \<in> set ys. jsLe (key x) (key z)"
      using Cons.prems(2) xy jsLe_trans by auto
    with False xy Cons.prems(2) show ?thesis
      by (simp add: c)
  qed
qed

lemma sorted_sortBy_key:
  assumes cmp: "\<And>a b. cmp a b = jsSub (key a) (key b)"
    and grid: "\<And>y. y \<in> set xs \<Longrightarrow> onGrid (key y)"
  shows "sorted_wrt (\<lambda>a b. jsLe (key a) (key b)) (sortBy cmp xs)"
  using grid
proof (induction xs)
  case Nil
  then show ?case by (simp add: sortBy_Nil)
next
  case (Cons x xs)
  have "sorted_wrt (\<lambda>a b. jsLe (key a) (key b)) (sortBy cmp xs)"
    using Cons by simp
  moreover have "\<And>y. y \<in> set (sortBy cmp xs) \<Longrightarrow> onGrid (key y)"
    using Cons.prems by (simp add: set_sortBy)
  moreover have "onGrid (key x)" using Cons.prems by simp
  ultimately show ?case
    unfolding sortBy_Cons using cmp by (intro sorted_insertBy_key) auto
qed

lemma weaknessCompare_key:
  "weaknessCompare a b =
     jsSub (jsAdd (priorityScore a)
              (if (case pattern (cognitiveArea a) of None \<Rightarrow> False | Some p \<Rightarrow> trend p = Improving)
               then Finite 10 else Finite 0))
           (jsAdd (priorityScore b)
              (if (case pattern (cognitiveArea b) of None \<Rightarrow> False | Some p \<Rightarrow> trend p = Improving)
               then Finite 10 else Finite 0))"
  by (simp add: weaknessCompare_def Let_def)

lemma jsAdd_Finite_not_NaN: "p \<noteq> NaN \<Longrightarrow> jsAdd p (Finite b) \<noteq> NaN"
  by (cases p) (simp_all add: round64_not_NaN)

lemma weak_key_onGrid:
  assumes "jsLt (priorityScore y) t"
  shows "onGrid (jsAdd (priorityScore y) (if c then Finite 10 else Finite 0))"
proof -
  have "priorityScore y \<noteq> NaN" using assms jsLt_not_NaN by blast
  then show ?thesis
    by (intro jsAdd_onGrid) (simp add: jsAdd_Finite_not_NaN)
qed

lemma length_potentialStrengths: "length (potentialStrengths scored) \<le> 3"
  by (simp add: potentialStrengths_def)

lemma length_potentialWeaknesses: "length (potentialWeaknesses scored) \<le> 3"
  by (simp add: potentialWeaknesses_def)

lemma potentialStrengths_areas:
  "n \<in> area ` set (potentialStrengths scored) \<Longrightarrow>
   \<exists>x \<in> set scored. isStrength x \<and> areaName (cognitiveArea x) = n"
proof -
  assume "n \<in> area ` set (potentialStrengths scored)"
  then obtain x where x: "x \<in> set (take 3 (sortBy strengthCompare (filter isStrength scored)))"
    and n: "n = areaName (cognitiveArea x)"
    by (auto simp: potentialStrengths_def)
  from x have "x \<in> set (sortBy strengthCompare (filter isStrength scored))"
    by (rule in_set_takeD)
  then have "x \<in> set scored \<and> isStrength x"
    by (simp add: set_sortBy)
  with n show ?thesis by blast
qed

lemma potentialWeaknesses_areas:
  "n \<in> area ` set (potentialWeaknesses scored) \<Longrightarrow>
   \<exists>x \<in> set scored. isWeakness x \<and> areaName (cognitiveArea x) = n"
proof -
  assume "n \<in> area ` set (potentialWeaknesses scored)"
  then obtain x where x: "x \<in> set (take 3 (sortBy weaknessCompare (filter isWeakness scored)))"
    and n: "n = areaName (cognitiveArea x)"
    by (auto simp: potentialWeaknesses_def)
  from x have "x \<in> set (sortBy weaknessCompare (filter isWeakness scored))"
    by (rule in_set_takeD)
  then have "x \<in> set scored \<and> isWeakness x"
    by (simp add: set_sortBy)
  with n show ?thesis by blast
qed

lemma scoredAreas_names:
  "map (\<lambda>x. areaName (cognitiveArea x)) (scoredAreas rows ps areas) = map areaName areas"
  by (simp add: scoredAreas_def Let_def comp_def)

lemma scoredAreas_classes:
  "x \<in> set (scoredAreas rows ps areas) \<Longrightarrow>
   isStrength x = jsGe (priorityScore x) (Finite 70) \<and>
   isWeakness x = jsLt (priorityScore x) (Finite 70)"
  by (auto simp: scoredAreas_def Let_def STRENGTH_THRESHOLD_def)

lemma scoredAreas_exclusive:
  "x \<in> set (scoredAreas rows ps areas) \<Longrightarrow> isWeakness x \<Longrightarrow> \<not> isStrength x"
  using scoredAreas_classes jsLt_jsGe_exclusive by blast

lemma scoredAreas_classified:
  "x \<in> set (scoredAreas rows ps areas) \<Longrightarrow> priorityScore x \<noteq> NaN \<Longrightarrow>
   isWeakness x = (\<not> isStrength x)"
  using scoredAreas_classes [of x rows ps areas] jsLt_jsGe_exclusive [of "priorityScore x" "Finite 70"]
    jsGe_or_jsLt [of "priorityScore x" "Finite 70"]
  by auto

lemma cognitiveAreas_names:
  "map areaName (cognitiveAreas latest ps) =
     [''Creativity'', ''Problem Solving'', ''Pattern Recognition'', ''Focus Duration'',
      ''Task Switching'', ''Emotional Regulation'', ''Organization'', ''Time Awareness'']"
  by (simp add: cognitiveAreas_def)

lemma distinct_area_names: "distinct (map areaName (cognitiveAreas latest ps))"
  by (simp add: cognitiveAreas_names)

lemma scoredAreasOf_distinct:
  "distinct (map (\<lambda>x. areaName (cognitiveArea x)) (scoredAreasOf rows))"
  by (simp add: scoredAreasOf_def Let_def scoredAreas_names distinct_area_names)

lemma scoredAreasOf_inj:
  assumes "x \<in> set (scoredAreasOf rows)" and "y \<in> set (scoredAreasOf rows)"
    and "areaName (cognitiveArea x) = areaName (cognitiveArea y)"
  shows "x = y"
  using assms scoredAreasOf_distinct [of rows]
  by (meson distinct_map inj_onD)

lemma scoredAreasOf_exclusive:
  "x \<in> set (scoredAreasOf rows) \<Longrightarrow> isWeakness x \<Longrightarrow> \<not> isStrength x"
  unfolding scoredAreasOf_def Let_def by (rule scoredAreas_exclusive)

lemma scoredAreasOf_classes:
  "x \<in> set (scoredAreasOf rows) \<Longrightarrow>
   isStrength x = jsGe (priorityScore x) (Finite 70) \<and>
   isWeakness x = jsLt (priorityScore x) (Finite 70)"
  unfolding scoredAreasOf_def Let_def by (rule scoredAreas_classes)

lemma length_scoredAreasOf: "length (scoredAreasOf rows) = 8"
  by (simp add: scoredAreasOf_def Let_def scoredAreas_def cognitiveAreas_def)

lemma selection_disjoint:
  "area ` set (potentialStrengths (scoredAreasOf rows)) \<inter>
   area ` set (potentialWeaknesses (scoredAreasOf rows)) = {}"
proof (rule ccontr)
  assume "\<not> ?thesis"
  then obtain n where s: "n \<in> area ` set (potentialStrengths (scoredAreasOf rows))"
    and w: "n \<in> area ` set (potentialWeaknesses (scoredAreasOf rows))"
    by blast
  from potentialStrengths_areas [OF s] obtain x
    where x: "x \<in> set (scoredAreasOf rows)" "isStrength x" "areaName (cognitiveArea x) = n"
    by blast
  from potentialWeaknesses_areas [OF w] obtain y
    where y: "y \<in> set (scoredAreasOf rows)" "isWeakness y" "areaName (cognitiveArea y) = n"
    by blast
  have "x = y"
    using x y by (simp add: scoredAreasOf_inj)
  with x y scoredAreasOf_exclusive [of y rows] show False by simp
qed

subsection \<open>The exported function\<close>

lemma take3_potentialStrengths: "take 3 (potentialStrengths scored) = potentialStrengths scored"
  by (simp add: potentialStrengths_def)

lemma take3_potentialWeaknesses: "take 3 (potentialWeaknesses scored) = potentialWeaknesses scored"
  by (simp add: potentialWeaknesses_def)

lemma analyze_result:
  "formatDate env (completed_at (rows ! 0)) = Some d \<Longrightarrow>
   \<exists>r effects. analyze userId env rows = Some (r, effects) \<and>
     strengths r = potentialStrengths (scoredAreasOf rows) \<and>
     weaknesses r = potentialWeaknesses (scoredAreasOf rows) \<and>
     assessmentId r = Some (assessment_id (rows ! 0))"
  by (simp add: analyze_def Let_def scoredAreasOf_def take3_potentialStrengths
      take3_potentialWeaknesses)

lemma analyze_throws:
  "formatDate env (completed_at (rows ! 0)) = None \<Longrightarrow> analyze userId env rows = None"
  by (simp add: analyze_def Let_def)

lemma getStrengthsAndWeaknesses_success:
  assumes "error (assessmentsResponse env) = None"
    and "data (assessmentsResponse env) = Some rows"
    and "rows \<noteq> []"
    and "formatDate env (completed_at (rows ! 0)) = Some d"
  shows "strengths (fst (getStrengthsAndWeaknesses userId env)) =
           potentialStrengths (scoredAreasOf rows) \<and>
         weaknesses (fst (getStrengthsAndWeaknesses userId env)) =
           potentialWeaknesses (scoredAreasOf rows)"
proof -
  obtain r effects where "analyze userId env rows = Some (r, effects)"
    and "strengths r = potentialStrengths (scoredAreasOf rows)"
    and "weaknesses r = potentialWeaknesses (scoredAreasOf rows)"
    using analyze_result [OF assms(4)] by blast
  with assms(1-3) show ?thesis
    by (simp add: getStrengthsAndWeaknesses_def Let_def)
qed

lemma getStrengthsAndWeaknesses_cases:
  "fst (getStrengthsAndWeaknesses userId env) = fallbackInsights \<or>
   fst (getStrengthsAndWeaknesses userId env) = noAssessmentInsights \<or>
   (\<exists>rows. strengths (fst (getStrengthsAndWeaknesses userId env)) =
              potentialStrengths (scoredAreasOf rows) \<and>
            weaknesses (fst (getStrengthsAndWeaknesses userId env)) =
              potentialWeaknesses (scoredAreasOf rows))"
proof (cases "error (assessmentsResponse env) = None")
  case False
  then show ?thesis by (simp add: getStrengthsAndWeaknesses_def Let_def)
next
  case noerr: True
  show ?thesis
  proof (cases "data (assessmentsResponse env)")
    case None
    with noerr show ?thesis by (simp add: getStrengthsAndWeaknesses_def Let_def)
  next
    case (Some rows)
    show ?thesis
    proof (cases "rows = []")
      case True
      with noerr Some show ?thesis by (simp add: getStrengthsAndWeaknesses_def Let_def)
    next
      case nonempty: False
      show ?thesis
      proof (cases "formatDate env (completed_at (rows ! 0))")
        case None
        then have "analyze userId env rows = None" by (rule analyze_throws)
        with noerr Some nonempty show ?thesis
          by (simp add: getStrengthsAndWeaknesses_def Let_def)
      next
        case (Some d)
        from getStrengthsAndWeaknesses_success [OF noerr \<open>data (assessmentsResponse env) = Some rows\<close> nonempty Some]
        show ?thesis by blast
      qed
    qed
  qed
qed

text \<open>
  C1. The result of \<open>getStrengthsAndWeaknesses\<close> has at most 3 strengths and at most 3
  weaknesses, and no area name occurs in both lists. This holds on every path, in particular
  on the successful analysis of a non-empty assessment sequence, where a dimension is a
  strength when its priority score is at least 70 and a weakness when it is below 70.
\<close>

theorem C1_selection_bounded_disjoint:
  "length (strengths (fst (getStrengthsAndWeaknesses userId env))) \<le> 3 \<and>
   length (weaknesses (fst (getStrengthsAndWeaknesses userId env))) \<le> 3 \<and>
   area ` set (strengths (fst (getStrengthsAndWeaknesses userId env))) \<inter>
   area ` set (weaknesses (fst (getStrengthsAndWeaknesses userId env))) = {}"
  using getStrengthsAndWeaknesses_cases [of userId env]
proof (elim disjE exE conjE)
  assume "fst (getStrengthsAndWeaknesses userId env) = fallbackInsights"
  then show ?thesis by (simp add: fallbackInsights_def)
next
  assume "fst (getStrengthsAndWeaknesses userId env) = noAssessmentInsights"
  then show ?thesis by (simp add: noAssessmentInsights_def)
next
  fix rows
  assume "strengths (fst (getStrengthsAndWeaknesses userId env)) =
            potentialStrengths (scoredAreasOf rows)"
    and "weaknesses (fst (getStrengthsAndWeaknesses userId env)) =
            potentialWeaknesses (scoredAreasOf rows)"
  then show ?thesis
    by (simp add: length_potentialStrengths length_potentialWeaknesses selection_disjoint)
qed

lemma filter_split_length:
  "(\<And>x. x \<in> set xs \<Longrightarrow> Q x = (\<not> P x)) \<Longrightarrow>
   length (filter P xs) + length (filter Q xs) = length xs"
  by (induction xs) auto

text \<open>When no priority score is NaN, one of the two lists is full.\<close>

lemma one_class_full:
  assumes "\<And>x. x \<in> set (scoredAreasOf rows) \<Longrightarrow> priorityScore x \<noteq> NaN"
  shows "max (length (potentialStrengths (scoredAreasOf rows)))
             (length (potentialWeaknesses (scoredAreasOf rows))) = 3"
proof -
  have "\<And>x. x \<in> set (scoredAreasOf rows) \<Longrightarrow> isWeakness x = (\<not> isStrength x)"
    using assms scoredAreas_classified unfolding scoredAreasOf_def Let_def by blast
  then have "length (filter isStrength (scoredAreasOf rows)) +
        length (filter isWeakness (scoredAreasOf rows)) = 8"
    using filter_split_length [of "scoredAreasOf rows" isWeakness isStrength]
    by (simp add: length_scoredAreasOf)
  then show ?thesis
    by (auto simp: potentialStrengths_def potentialWeaknesses_def length_sortBy)
qed


subsection \<open>The scored areas, field by field\<close>

lemma cognitiveAreas_areaOf:
  "cognitiveAreas latest ps = map (areaOf latest ps) cognitiveFields"
  by (simp add: areaOf_def cognitiveAreas_def cognitiveFields_def)

lemma areaOf_field [simp]: "field (areaOf latest ps f) = f"
  by (cases f) (simp_all add: areaOf_def cognitiveAreas_def)

lemma areaOf_rawValue [simp]: "rawValue (areaOf latest ps f) = getField latest f"
  by (cases f) (simp_all add: areaOf_def cognitiveAreas_def)

lemma areaOf_pattern [simp]: "pattern (areaOf latest ps f) = map_of ps f"
  by (cases f) (simp_all add: areaOf_def cognitiveAreas_def)

lemma areaOf_names:
  "areaName (areaOf latest ps CreativityScore) = ''Creativity''"
  "areaName (areaOf latest ps ProblemSolving) = ''Problem Solving''"
  "areaName (areaOf latest ps PatternRecognition) = ''Pattern Recognition''"
  "areaName (areaOf latest ps FocusDuration) = ''Focus Duration''"
  "areaName (areaOf latest ps TaskSwitching) = ''Task Switching''"
  "areaName (areaOf latest ps EmotionalRegulation) = ''Emotional Regulation''"
  "areaName (areaOf latest ps Organization) = ''Organization''"
  "areaName (areaOf latest ps TimeAwareness) = ''Time Awareness''"
  by (simp_all add: areaOf_def cognitiveAreas_def)

lemma scoredAreasOf_fields:
  "scoredAreasOf rows =
     map (\<lambda>f. \<lparr>cognitiveArea = areaOf (rows ! 0) (analyzeHistoricalPatterns rows) f,
                priorityScore = fieldScore rows f,
                isStrength = jsGe (fieldScore rows f) (Finite 70),
                isWeakness = jsLt (fieldScore rows f) (Finite 70)\<rparr>)
       cognitiveFields"
  by (simp add: scoredAreasOf_def scoredAreas_def Let_def cognitiveAreas_areaOf fieldScore_def
      STRENGTH_THRESHOLD_def comp_def)

lemma scores_of_fields: "map priorityScore (scoredAreasOf rows) = map (fieldScore rows) cognitiveFields"
  by (simp add: scoredAreasOf_fields comp_def)

subsection \<open>Single-record scenarios\<close>

lemma single_patterns:
  "isFiniteDouble (getField a f) \<Longrightarrow>
   map_of (analyzeHistoricalPatterns [a]) f =
     Some \<lparr>average = getField a f, trend = Stable, consistency = Finite 100\<rparr>"
  by (simp add: map_of_analyzeHistoricalPatterns fieldPattern_single)

text \<open>
  The score of a field of a single record whose value is a finite double other than zero:
  the value plus 8, times the double nearest 0.9, plus the value times the double nearest 0.1,
  clamped.
\<close>

lemma fieldScore_single:
  assumes "getField a f = Finite r" and "round64 r = Finite r" and "r \<noteq> 0"
  shows "fieldScore [a] f =
     mathMax (Finite 0) (mathMin (Finite 100)
       (jsAdd (jsMul (round64 (r + 8)) (Finite (8106479329266893 / 2 ^ 53)))
          (round64 (r * (3602879701896397 / 2 ^ 55)))))"
proof -
  have w: "mathMin (jsDiv (ofLength (length [a])) (Finite 10)) (round64 (3 / 10)) =
           Finite (3602879701896397 / 2 ^ 55)"
    by (simp add: number_evals)
  have w': "jsSub (Finite 1) (Finite (3602879701896397 / 2 ^ 55)) =
            Finite (8106479329266893 / 2 ^ 53)"
    by (simp add: number_evals)
  have p: "map_of (analyzeHistoricalPatterns [a]) f =
     Some \<lparr>average = Finite r, trend = Stable, consistency = Finite 100\<rparr>"
    using single_patterns [of a f] assms(1,2) by simp
  show ?thesis
    using w w' assms(3)
    by (simp add: fieldScore_def calculatePriorityScore_def p assms(1) jsGt_def)
qed

lemma score_of_85: "getField a f = Finite 85 \<Longrightarrow> fieldScore [a] f = Finite (6487998213180621 / 2 ^ 46)"
  by (subst fieldScore_single [of a f 85]) (simp_all add: number_evals)

lemma score_of_80: "getField a f = Finite 80 \<Longrightarrow> fieldScore [a] f = Finite (6136154492292301 / 2 ^ 46)"
  by (subst fieldScore_single [of a f 80]) (simp_all add: number_evals)

text \<open>
  C6. For a single assessment record with creativity score 85 and every other dimension at
  80, whatever the interaction records, all eight priority scores are at least 70 (they are
  the doubles nearest to 92.2 and 87.2), the result has 3 strengths and no weakness.
\<close>

theorem C6_scenario:
  assumes "creativity_score a = Finite 85" and "problem_solving a = Finite 80"
    and "pattern_recognition a = Finite 80" and "focus_duration a = Finite 80"
    and "task_switching a = Finite 80" and "emotional_regulation a = Finite 80"
    and "organization a = Finite 80" and "time_awareness a = Finite 80"
    and "error (assessmentsResponse env) = None"
    and "data (assessmentsResponse env) = Some [a]"
    and "formatDate env (completed_at a) = Some d"
  shows "map priorityScore (scoredAreasOf [a]) =
           [Finite (6487998213180621 / 2 ^ 46), Finite (6136154492292301 / 2 ^ 46),
            Finite (6136154492292301 / 2 ^ 46), Finite (6136154492292301 / 2 ^ 46),
            Finite (6136154492292301 / 2 ^ 46), Finite (6136154492292301 / 2 ^ 46),
            Finite (6136154492292301 / 2 ^ 46), Finite (6136154492292301 / 2 ^ 46)] \<and>
         list_all (\<lambda>x. jsGe (priorityScore x) (Finite 70)) (scoredAreasOf [a]) \<and>
         length (strengths (fst (getStrengthsAndWeaknesses userId env))) = 3 \<and>
         length (weaknesses (fst (getStrengthsAndWeaknesses userId env))) = 0"
proof -
  have scores: "map priorityScore (scoredAreasOf [a]) =
           [Finite (6487998213180621 / 2 ^ 46), Finite (6136154492292301 / 2 ^ 46),
            Finite (6136154492292301 / 2 ^ 46), Finite (6136154492292301 / 2 ^ 46),
            Finite (6136154492292301 / 2 ^ 46), Finite (6136154492292301 / 2 ^ 46),
            Finite (6136154492292301 / 2 ^ 46), Finite (6136154492292301 / 2 ^ 46)]"
    using assms(1-8)
    by (simp add: scores_of_fields cognitiveFields_def score_of_85 score_of_80)
  have "list_all (\<lambda>s. jsGe s (Finite 70)) (map priorityScore (scoredAreasOf [a]))"
    unfolding scores by (simp add: jsGe_def jsLe_def)
  then have all: "list_all (\<lambda>x. jsGe (priorityScore x) (Finite 70)) (scoredAreasOf [a])"
    by (simp add: list_all_iff)
  have strong: "filter isStrength (scoredAreasOf [a]) = scoredAreasOf [a]"
    using all scoredAreasOf_classes
    by (auto simp: list_all_iff intro!: filter_True)
  have weak: "filter isWeakness (scoredAreasOf [a]) = []"
    using strong scoredAreasOf_exclusive [of _ "[a]"]
    by (metis filter_False filter_id_conv)
  have "formatDate env (completed_at ([a] ! 0)) = Some d"
    using assms(11) by simp
  from getStrengthsAndWeaknesses_success [OF assms(9) assms(10) _ this, of userId]
  have "strengths (fst (getStrengthsAndWeaknesses userId env)) = potentialStrengths (scoredAreasOf [a])"
    and "weaknesses (fst (getStrengthsAndWeaknesses userId env)) = potentialWeaknesses (scoredAreasOf [a])"
    by simp_all
  then have "length (strengths (fst (getStrengthsAndWeaknesses userId env))) = 3"
    and "length (weaknesses (fst (getStrengthsAndWeaknesses userId env))) = 0"
    by (simp_all add: potentialStrengths_def potentialWeaknesses_def strong weak length_sortBy
        length_scoredAreasOf sortBy_Nil)
  with scores all show ?thesis by simp
qed

text \<open>C6 at the record and the collaborators of the test suite.\<close>

theorem C6_witness:
  "length (strengths (fst (getStrengthsAndWeaknesses ''test-user-id'' (sampleEnv [sample 85])))) = 3 \<and>
   length (weaknesses (fst (getStrengthsAndWeaknesses ''test-user-id'' (sampleEnv [sample 85])))) = 0"
  using C6_scenario [of "sample 85" "sampleEnv [sample 85]" "''01/01/2024''" "''test-user-id''"]
  by (simp add: sample_def assessmentOf_def sampleEnv_def)

lemma mixed_scores:
  shows "fieldScore [mixedRecord] CreativityScore = Finite (2617717283409101 / 2 ^ 46)"
    and "fieldScore [mixedRecord] ProblemSolving = Finite (4841369599423283 / 2 ^ 48)"
    and "fieldScore [mixedRecord] PatternRecognition = Finite (4025092166962381 / 2 ^ 46)"
    and "fieldScore [mixedRecord] FocusDuration = Finite (7656119366529843 / 2 ^ 48)"
    and "fieldScore [mixedRecord] TaskSwitching = Finite (6839841934068941 / 2 ^ 46)"
    and "fieldScore [mixedRecord] EmotionalRegulation = Finite (4728779608739021 / 2 ^ 46)"
    and "fieldScore [mixedRecord] Organization = Finite (3321404725185741 / 2 ^ 46)"
    and "fieldScore [mixedRecord] TimeAwareness = Finite 100"
proof -
  show "fieldScore [mixedRecord] CreativityScore = Finite (2617717283409101 / 2 ^ 46)"
    using fieldScore_single [of mixedRecord CreativityScore 30]
    by (simp add: mixedRecord_def number_evals)
  show "fieldScore [mixedRecord] ProblemSolving = Finite (4841369599423283 / 2 ^ 48)"
    using fieldScore_single [of mixedRecord ProblemSolving 10]
    by (simp add: mixedRecord_def number_evals)
  show "fieldScore [mixedRecord] PatternRecognition = Finite (4025092166962381 / 2 ^ 46)"
    using fieldScore_single [of mixedRecord PatternRecognition 50]
    by (simp add: mixedRecord_def number_evals)
  show "fieldScore [mixedRecord] FocusDuration = Finite (7656119366529843 / 2 ^ 48)"
    using fieldScore_single [of mixedRecord FocusDuration 20]
    by (simp add: mixedRecord_def number_evals)
  show "fieldScore [mixedRecord] TaskSwitching = Finite (6839841934068941 / 2 ^ 46)"
    using fieldScore_single [of mixedRecord TaskSwitching 90]
    by (simp add: mixedRecord_def number_evals)
  show "fieldScore [mixedRecord] EmotionalRegulation = Finite (4728779608739021 / 2 ^ 46)"
    using fieldScore_single [of mixedRecord EmotionalRegulation 60]
    by (simp add: mixedRecord_def number_evals)
  show "fieldScore [mixedRecord] Organization = Finite (3321404725185741 / 2 ^ 46)"
    using fieldScore_single [of mixedRecord Organization 40]
    by (simp add: mixedRecord_def number_evals)
  show "fieldScore [mixedRecord] TimeAwareness = Finite 100"
    using fieldScore_single [of mixedRecord TimeAwareness 95]
    by (simp add: mixedRecord_def number_evals)
qed

lemma mixed_patterns:
  "map_of (analyzeHistoricalPatterns [mixedRecord]) f =
     Some \<lparr>average = getField mixedRecord f, trend = Stable, consistency = Finite 100\<rparr>"
  by (rule single_patterns) (cases f; simp add: mixedRecord_def number_evals)

lemma mixed_selection:
  "map area (potentialWeaknesses (scoredAreasOf [mixedRecord])) =
     [''Problem Solving'', ''Focus Duration'', ''Creativity''] \<and>
   map area (potentialStrengths (scoredAreasOf [mixedRecord])) =
     [''Task Switching'', ''Time Awareness'']"
  by (simp add: scoredAreasOf_fields cognitiveFields_def mixed_scores mixed_patterns
      potentialWeaknesses_def potentialStrengths_def sortBy_def weaknessCompare_def
      strengthCompare_def consistencyOrZero_def areaOf_names number_evals)

text \<open>
  C1 at a record with eight different values: two strengths, three weaknesses, no name in
  common.
\<close>

theorem C1_witness:
  "map area (strengths (fst (getStrengthsAndWeaknesses ''test-user-id'' (sampleEnv [mixedRecord])))) =
     [''Task Switching'', ''Time Awareness''] \<and>
   map area (weaknesses (fst (getStrengthsAndWeaknesses ''test-user-id'' (sampleEnv [mixedRecord])))) =
     [''Problem Solving'', ''Focus Duration'', ''Creativity''] \<and>
   area ` set (strengths (fst (getStrengthsAndWeaknesses ''test-user-id'' (sampleEnv [mixedRecord])))) \<inter>
   area ` set (weaknesses (fst (getStrengthsAndWeaknesses ''test-user-id'' (sampleEnv [mixedRecord])))) = {}"
  using C1_selection_bounded_disjoint [of "''test-user-id''" "sampleEnv [mixedRecord]"]
    mixed_selection
    getStrengthsAndWeaknesses_success [of "sampleEnv [mixedRecord]" "[mixedRecord]" "''01/01/2024''" "''test-user-id''"]
  by (simp add: sampleEnv_def)

subsection \<open>Failure and short-circuit paths\<close>

text \<open>
  C4. When the query for the assessments answers with an error, \<open>getStrengthsAndWeaknesses\<close>
  returns exactly the fallback: no strengths, no weaknesses, the fixed message, and no id,
  creation time or assessment id. Nothing but the query and two console messages happens: no
  second query, no insert.
\<close>

theorem C4_fetch_failure:
  "error (assessmentsResponse env) \<noteq> None \<Longrightarrow>
   getStrengthsAndWeaknesses userId env =
     (\<lparr>insights_id = None, strengths = [], weaknesses = [],
       generalInsight = ''We're having trouble analyzing your data. Please try again later.'',
       createdAt = None, assessmentId = None\<rparr>,
      [SelectAssessments userId,
       ConsoleError ''Error fetching assessment data:'',
       ConsoleError ''Error in getStrengthsAndWeaknesses:''])"
  by (simp add: getStrengthsAndWeaknesses_def Let_def fallbackInsights_def)


text \<open>
  C4 at an answer that carries an error next to a usable row: the row is not analysed.
\<close>

theorem C4_witness:
  "error (assessmentsResponse
            ((sampleEnv [sample 85])\<lparr>assessmentsResponse :=
               \<lparr>data = Some [sample 85], error = Some ''connection refused''\<rparr>\<rparr>)) \<noteq> None \<and>
   fst (getStrengthsAndWeaknesses ''test-user-id''
          ((sampleEnv [sample 85])\<lparr>assessmentsResponse :=
             \<lparr>data = Some [sample 85], error = Some ''connection refused''\<rparr>\<rparr>)) =
     \<lparr>insights_id = None, strengths = [], weaknesses = [],
      generalInsight = ''We're having trouble analyzing your data. Please try again later.'',
      createdAt = None, assessmentId = None\<rparr>"
  using C4_fetch_failure [of "(sampleEnv [sample 85])\<lparr>assessmentsResponse :=
             \<lparr>data = Some [sample 85], error = Some ''connection refused''\<rparr>\<rparr>" "''test-user-id''"]
  by (simp add: sampleEnv_def)


text \<open>
  C5. When the query for the assessments succeeds with no rows (\<^verbatim>\<open>null\<close> or an empty
  list), \<open>getStrengthsAndWeaknesses\<close> returns exactly the empty lists and the fixed message
  that asks for an assessment, and its only effect is that query: the interactions are not
  fetched and nothing is inserted.
\<close>

theorem C5_no_assessments:
  "error (assessmentsResponse env) = None \<Longrightarrow>
   data (assessmentsResponse env) = None \<or> data (assessmentsResponse env) = Some [] \<Longrightarrow>
   getStrengthsAndWeaknesses userId env =
     (\<lparr>insights_id = None, strengths = [], weaknesses = [],
       generalInsight = ''Complete an assessment to see personalized insights.'',
       createdAt = None, assessmentId = None\<rparr>,
      [SelectAssessments userId])"
  by (auto simp: getStrengthsAndWeaknesses_def Let_def noAssessmentInsights_def)


text \<open>C5 at the empty list of the test suite.\<close>

theorem C5_witness:
  "error (assessmentsResponse (sampleEnv [])) = None \<and>
   data (assessmentsResponse (sampleEnv [])) = Some [] \<and>
   getStrengthsAndWeaknesses ''test-user-id'' (sampleEnv []) =
     (\<lparr>insights_id = None, strengths = [], weaknesses = [],
       generalInsight = ''Complete an assessment to see personalized insights.'',
       createdAt = None, assessmentId = None\<rparr>,
      [SelectAssessments ''test-user-id''])"
  using C5_no_assessments [of "sampleEnv []" "''test-user-id''"]
  by (simp add: sampleEnv_def)


subsection \<open>Technique statistics\<close>

lemma countOf_snoc:
  "countOf P k (xs @ [x]) = countOf P k xs + (if technique_id x = k \<and> P x then 1 else 0)"
  by (simp add: countOf_def)

lemma countOf_zero: "k \<notin> technique_id ` set xs \<Longrightarrow> countOf P k xs = 0"
  by (auto simp: countOf_def filter_empty_conv)

lemma recordInteraction_lookup:
  assumes "map_of ts = expectedLookup xs"
  shows "map_of (recordInteraction ts x) = expectedLookup (xs @ [x])"
proof (rule ext)
  fix k
  show "map_of (recordInteraction ts x) k = expectedLookup (xs @ [x]) k"
  proof (cases "technique_id x \<in> set objectPrototypeKeys")
    case True
    then have none: "map_of ts (technique_id x) = None"
      by (simp add: assms expectedLookup_def)
    then have "recordInteraction ts x = ts"
      using True by (simp add: recordInteraction_def Let_def)
    moreover have "expectedLookup (xs @ [x]) k = expectedLookup xs k"
      using True by (auto simp: expectedLookup_def expectedStats_def countOf_snoc)
    ultimately show ?thesis by (simp add: assms)
  next
    case False
    show ?thesis
    proof (cases "technique_id x \<in> technique_id ` set xs")
      case True
      with False have "map_of ts (technique_id x) = Some (expectedStats (technique_id x) xs)"
        by (simp add: assms expectedLookup_def)
      then show ?thesis
        using False True
        by (auto simp: recordInteraction_def Let_def update_conv' assms expectedLookup_def
            expectedStats_def countOf_snoc)
    next
      case new: False
      with False have "map_of ts (technique_id x) = None"
        by (simp add: assms expectedLookup_def)
      then show ?thesis
        using False new
        by (auto simp: recordInteraction_def Let_def update_conv' assms expectedLookup_def
            expectedStats_def countOf_snoc countOf_zero)
    qed
  qed
qed

lemma analyzeTechniquePatterns_lookup:
  "map_of (analyzeTechniquePatterns interactions) = expectedLookup interactions"
proof (induction interactions rule: rev_induct)
  case Nil
  show ?case by (simp add: analyzeTechniquePatterns_def expectedLookup_def fun_eq_iff)
next
  case (snoc x xs)
  then show ?case
    using recordInteraction_lookup [of "analyzeTechniquePatterns xs" xs x]
    by (simp add: analyzeTechniquePatterns_def)
qed

lemma countOf_perm: "mset xs = mset ys \<Longrightarrow> countOf P k xs = countOf P k ys"
  unfolding countOf_def by (metis mset_filter size_mset)

lemma analyzeTechniquePatterns_perm:
  assumes "mset xs = mset ys"
  shows "map_of (analyzeTechniquePatterns xs) = map_of (analyzeTechniquePatterns ys)"
proof -
  have "set xs = set ys" using assms by (metis set_mset_mset)
  then show ?thesis
    using assms
    by (simp add: analyzeTechniquePatterns_lookup expectedLookup_def expectedStats_def fun_eq_iff
        countOf_perm [OF assms])
qed

lemma countOf_total:
  "countOf (\<lambda>i. True) k xs =
     countOf (\<lambda>i. feedback i = Some Helpful) k xs +
     countOf (\<lambda>i. feedback i = Some NotHelpful) k xs +
     countOf (\<lambda>i. feedback i = None) k xs"
proof (induction xs)
  case Nil
  show ?case by (simp add: countOf_def)
next
  case (Cons x xs)
  then show ?case
    by (cases "feedback x"; cases "the (feedback x)") (auto simp: countOf_def)
qed

lemma analyzeTechniquePatterns_own_key:
  assumes "k \<in> technique_id ` set interactions" and "k \<notin> set objectPrototypeKeys"
  shows "\<exists>s. map_of (analyzeTechniquePatterns interactions) k = Some s \<and>
           helpful s = countOf (\<lambda>i. feedback i = Some Helpful) k interactions \<and>
           notHelpful s = countOf (\<lambda>i. feedback i = Some NotHelpful) k interactions \<and>
           totalInteractions s =
             helpful s + notHelpful s + countOf (\<lambda>i. feedback i = None) k interactions"
  using assms countOf_total [of k interactions]
  by (simp add: analyzeTechniquePatterns_lookup expectedLookup_def expectedStats_def)


text \<open>
  C7. The claim is that every technique identifier of the input gets its counts: total equal
  to helpful plus not helpful plus the records without feedback. The lemmas above prove this,
  and the independence of the order, for every identifier that is not a property name of
  \<^verbatim>\<open>Object.prototype\<close>. For such a name the code departs from the claim: one helpful
  interaction with the technique \<^verbatim>\<open>constructor\<close> leaves the returned object without any
  entry, where the same interaction with another identifier is counted.
\<close>

theorem C7_inherited_key:
  "analyzeTechniquePatterns
     [\<lparr>technique_id = ''constructor'', technique_title = ''Body doubling'',
       feedback = Some Helpful, created_at = ''2024-01-01''\<rparr>] = [] \<and>
   map_of (analyzeTechniquePatterns
     [\<lparr>technique_id = ''constructor'', technique_title = ''Body doubling'',
       feedback = Some Helpful, created_at = ''2024-01-01''\<rparr>]) ''constructor'' = None \<and>
   analyzeTechniquePatterns
     [\<lparr>technique_id = ''pomodoro'', technique_title = ''Pomodoro'',
       feedback = Some Helpful, created_at = ''2024-01-01''\<rparr>] =
     [(''pomodoro'', \<lparr>helpful = 1, notHelpful = 0, totalInteractions = 1, categories = []\<rparr>)]"
  by (simp add: analyzeTechniquePatterns_def recordInteraction_def objectPrototypeKeys_def Let_def)


subsection \<open>Ranking of the weaknesses\<close>

lemma sorted_take_drop:
  "sorted_wrt R xs \<Longrightarrow> x \<in> set (take n xs) \<Longrightarrow> y \<in> set (drop n xs) \<Longrightarrow> R x y"
  using sorted_wrt_append [of R "take n xs" "drop n xs"] by simp

text \<open>
  C8 (as amended). On the successful path the weaknesses are the first 3 (fewer if fewer
  qualify) of the dimensions with priority score below 70, arranged in ascending order of the
  adjusted key: the priority score plus 10 when the trend of the dimension's pattern is
  improving, and plus 0 otherwise, as a double. So every dimension below the threshold that
  is left out of the list has an adjusted key greater than or equal to that of every
  dimension in the list. Dimensions at or above the threshold are not candidates, whatever
  their key.
\<close>

theorem C8_weakness_selection:
  fixes key :: "ScoredArea \<Rightarrow> number"
  defines "key \<equiv> \<lambda>x. jsAdd (priorityScore x)
      (if (case pattern (cognitiveArea x) of None \<Rightarrow> False | Some p \<Rightarrow> trend p = Improving)
       then Finite 10 else Finite 0)"
  assumes "error (assessmentsResponse env) = None"
    and "data (assessmentsResponse env) = Some rows"
    and "rows \<noteq> []"
    and "formatDate env (completed_at (rows ! 0)) = Some d"
  shows "weaknesses (fst (getStrengthsAndWeaknesses userId env)) =
           map (\<lambda>x. \<lparr>area = areaName (cognitiveArea x),
                      description = growthDescription (cognitiveArea x)\<rparr>)
             (take 3 (sortBy weaknessCompare (filter isWeakness (scoredAreasOf rows)))) \<and>
         mset (sortBy weaknessCompare (filter isWeakness (scoredAreasOf rows))) =
           mset (filter (\<lambda>x. jsLt (priorityScore x) (Finite 70)) (scoredAreasOf rows)) \<and>
         sorted_wrt (\<lambda>a b. jsLe (key a) (key b))
           (sortBy weaknessCompare (filter isWeakness (scoredAreasOf rows))) \<and>
         (\<forall>x \<in> set (scoredAreasOf rows). \<forall>y \<in> set (scoredAreasOf rows).
            jsLt (priorityScore y) (Finite 70) \<and>
            areaName (cognitiveArea x) \<in>
              area ` set (weaknesses (fst (getStrengthsAndWeaknesses userId env))) \<and>
            areaName (cognitiveArea y) \<notin>
              area ` set (weaknesses (fst (getStrengthsAndWeaknesses userId env))) \<longrightarrow>
            jsLe (key x) (key y))"
proof -
  let ?scored = "scoredAreasOf rows"
  let ?sorted = "sortBy weaknessCompare (filter isWeakness ?scored)"
  let ?w = "weaknesses (fst (getStrengthsAndWeaknesses userId env))"
  have w: "?w = map (\<lambda>x. \<lparr>area = areaName (cognitiveArea x),
                      description = growthDescription (cognitiveArea x)\<rparr>) (take 3 ?sorted)"
    using getStrengthsAndWeaknesses_success [OF assms(2-5), of userId]
    by (simp add: potentialWeaknesses_def)
  have names: "area ` set ?w = (\<lambda>x. areaName (cognitiveArea x)) ` set (take 3 ?sorted)"
    unfolding w by (simp add: image_image)
  have weak: "filter isWeakness ?scored = filter (\<lambda>x. jsLt (priorityScore x) (Finite 70)) ?scored"
    using scoredAreasOf_classes by (intro filter_cong) auto
  have m: "mset ?sorted = mset (filter (\<lambda>x. jsLt (priorityScore x) (Finite 70)) ?scored)"
    by (simp add: mset_sortBy weak)
  have cmp: "\<And>a b. weaknessCompare a b = jsSub (key a) (key b)"
    unfolding key_def by (rule weaknessCompare_key)
  have grid: "onGrid (key y)" if "y \<in> set (filter isWeakness ?scored)" for y
  proof -
    from that have "jsLt (priorityScore y) (Finite 70)" by (simp add: weak)
    then show ?thesis unfolding key_def by (rule weak_key_onGrid)
  qed
  have s: "sorted_wrt (\<lambda>a b. jsLe (key a) (key b)) ?sorted"
    using cmp grid by (rule sorted_sortBy_key)
  have sub: "set ?sorted \<subseteq> set ?scored"
    by (simp add: set_sortBy)
  have omitted: "jsLe (key x) (key y)"
    if x: "x \<in> set ?scored" and y: "y \<in> set ?scored"
      and wy: "jsLt (priorityScore y) (Finite 70)"
      and inx: "areaName (cognitiveArea x) \<in> area ` set ?w"
      and outy: "areaName (cognitiveArea y) \<notin> area ` set ?w" for x y
  proof -
    from inx obtain x' where x': "x' \<in> set (take 3 ?sorted)"
      and eq: "areaName (cognitiveArea x) = areaName (cognitiveArea x')"
      unfolding names by blast
    from x' have "x' \<in> set ?sorted" by (rule in_set_takeD)
    with sub have "x' \<in> set ?scored" by blast
    with x eq have "x = x'" by (simp add: scoredAreasOf_inj)
    with x' have xin: "x \<in> set (take 3 ?sorted)" by simp
    from y wy have "y \<in> set (filter (\<lambda>x. jsLt (priorityScore x) (Finite 70)) ?scored)" by simp
    then have "y \<in> set ?sorted"
      using m by (metis set_mset_mset)
    then have "y \<in> set (take 3 ?sorted) \<or> y \<in> set (drop 3 ?sorted)"
      by (metis Un_iff append_take_drop_id set_append)
    moreover have "y \<notin> set (take 3 ?sorted)"
      using outy unfolding names by blast
    ultimately have "y \<in> set (drop 3 ?sorted)" by blast
    with s xin show ?thesis by (rule sorted_take_drop)
  qed
  from w m s omitted show ?thesis by blast
qed


lemma getField_assessmentOf:
  "creativity_score (assessmentOf c v) = Finite c"
  "f \<noteq> CreativityScore \<Longrightarrow> getField (assessmentOf c v) f = Finite v"
  by (cases f; simp add: assessmentOf_def)+

lemma improvingRows_nonempty: "improvingRows v \<noteq> []"
  by (simp add: improvingRows_def)

lemma improving_pattern:
  "map_of (analyzeHistoricalPatterns (improvingRows v)) CreativityScore =
     Some \<lparr>average = Finite 55, trend = Improving, consistency = Finite 95\<rparr>"
  by (simp add: map_of_analyzeHistoricalPatterns improvingRows_nonempty fieldPattern_def)
     (simp add: improvingRows_def getField_assessmentOf valuesPattern_def fieldTrend_def
       reduceSum_def sqrt_25 number_evals)

lemma constant_patterns:
  "f \<noteq> CreativityScore \<Longrightarrow>
   map_of (analyzeHistoricalPatterns (improvingRows 65)) f =
     Some \<lparr>average = Finite 65, trend = Stable, consistency = Finite 100\<rparr>"
  "f \<noteq> CreativityScore \<Longrightarrow>
   map_of (analyzeHistoricalPatterns (improvingRows 62)) f =
     Some \<lparr>average = Finite 62, trend = Stable, consistency = Finite 100\<rparr>"
  by (simp_all add: map_of_analyzeHistoricalPatterns improvingRows_nonempty fieldPattern_def)
     (simp_all add: improvingRows_def getField_assessmentOf valuesPattern_def fieldTrend_def
       reduceSum_def number_evals)

lemma improving_score:
  "fieldScore (improvingRows v) CreativityScore = Finite (2308094809027379 / 2 ^ 45)"
  by (simp add: fieldScore_def calculatePriorityScore_def improving_pattern)
     (simp add: improvingRows_def getField_assessmentOf number_evals)

lemma constant_scores:
  "f \<noteq> CreativityScore \<Longrightarrow>
   fieldScore (improvingRows 65) f = Finite (2484016669471539 / 2 ^ 45)"
  "f \<noteq> CreativityScore \<Longrightarrow>
   fieldScore (improvingRows 62) f = Finite (2378463553205043 / 2 ^ 45)"
  by (simp_all add: fieldScore_def calculatePriorityScore_def constant_patterns)
     (simp_all add: improvingRows_def getField_assessmentOf number_evals)

lemma improving_65_selection:
  "map area (potentialWeaknesses (scoredAreasOf (improvingRows 65))) = [''Creativity'']"
  by (simp add: scoredAreasOf_fields cognitiveFields_def improving_score constant_scores
      improving_pattern constant_patterns potentialWeaknesses_def sortBy_def
      weaknessCompare_def areaOf_names number_evals)

lemma improving_62_selection:
  "map area (potentialWeaknesses (scoredAreasOf (improvingRows 62))) =
     [''Problem Solving'', ''Pattern Recognition'', ''Focus Duration'']"
  by (simp add: scoredAreasOf_fields cognitiveFields_def improving_score constant_scores
      improving_pattern constant_patterns potentialWeaknesses_def sortBy_def
      weaknessCompare_def areaOf_names number_evals)

lemma sampleEnv_success:
  "rows \<noteq> [] \<Longrightarrow>
   strengths (fst (getStrengthsAndWeaknesses userId (sampleEnv rows))) =
     potentialStrengths (scoredAreasOf rows) \<and>
   weaknesses (fst (getStrengthsAndWeaknesses userId (sampleEnv rows))) =
     potentialWeaknesses (scoredAreasOf rows)"
  by (rule getStrengthsAndWeaknesses_success [where d = "''01/01/2024''"])
     (simp_all add: sampleEnv_def)

text \<open>
  C8 as stated speaks of every dimension omitted from the list. With creativity 50, 50, 60,
  60 and every other dimension at 65 in four rows, Creativity is the only weakness (score
  65.6, improving, adjusted key 75.6); Problem Solving is omitted, being a strength with
  score and adjusted key 70.6, which is less than the key of the listed Creativity.
\<close>

theorem C8_counterexample:
  "map area (weaknesses (fst (getStrengthsAndWeaknesses ''test-user-id''
     (sampleEnv (improvingRows 65))))) = [''Creativity''] \<and>
   areaName (cognitiveArea (scoredAreasOf (improvingRows 65) ! 0)) = ''Creativity'' \<and>
   areaName (cognitiveArea (scoredAreasOf (improvingRows 65) ! 1)) = ''Problem Solving'' \<and>
   map_option trend (pattern (cognitiveArea (scoredAreasOf (improvingRows 65) ! 0))) =
     Some Improving \<and>
   map_option trend (pattern (cognitiveArea (scoredAreasOf (improvingRows 65) ! 1))) =
     Some Stable \<and>
   jsAdd (priorityScore (scoredAreasOf (improvingRows 65) ! 0)) (Finite 10) =
     Finite (2659938529915699 / 2 ^ 45) \<and>
   jsAdd (priorityScore (scoredAreasOf (improvingRows 65) ! 1)) (Finite 0) =
     Finite (2484016669471539 / 2 ^ 45) \<and>
   \<not> jsGe (Finite (2484016669471539 / 2 ^ 45)) (Finite (2659938529915699 / 2 ^ 45))"
  using sampleEnv_success [OF improvingRows_nonempty, of "''test-user-id''" 65]
    improving_65_selection
  by (simp add: scoredAreasOf_fields cognitiveFields_def improving_score constant_scores
      improving_pattern constant_patterns areaOf_names number_evals)

text \<open>
  The amended C8 with the other dimensions at 62: all eight are below the threshold.
  Creativity has the lowest priority score (65.6 against 67.6) but is improving, so its
  adjusted key 75.6 puts it last, and the list holds the first three of the others.
\<close>

theorem C8_witness:
  "error (assessmentsResponse (sampleEnv (improvingRows 62))) = None \<and>
   data (assessmentsResponse (sampleEnv (improvingRows 62))) = Some (improvingRows 62) \<and>
   improvingRows 62 \<noteq> [] \<and>
   formatDate (sampleEnv (improvingRows 62)) (completed_at (improvingRows 62 ! 0)) =
     Some ''01/01/2024'' \<and>
   map_option trend (pattern (cognitiveArea (scoredAreasOf (improvingRows 62) ! 0))) =
     Some Improving \<and>
   priorityScore (scoredAreasOf (improvingRows 62) ! 0) = Finite (2308094809027379 / 2 ^ 45) \<and>
   priorityScore (scoredAreasOf (improvingRows 62) ! 1) = Finite (2378463553205043 / 2 ^ 45) \<and>
   map area (weaknesses (fst (getStrengthsAndWeaknesses ''test-user-id''
     (sampleEnv (improvingRows 62))))) =
     [''Problem Solving'', ''Pattern Recognition'', ''Focus Duration'']"
  using C8_weakness_selection [of "sampleEnv (improvingRows 62)" "improvingRows 62"
      "''01/01/2024''" "''test-user-id''"]
    improving_62_selection improvingRows_nonempty [of 62]
  by (simp add: sampleEnv_def potentialWeaknesses_def scoredAreasOf_fields cognitiveFields_def
      improving_score constant_scores improving_pattern)

subsection \<open>The range of the priority score\<close>

lemma clamp_range:
  "mathMax (Finite 0) (mathMin (Finite 100) s) = NaN \<and> s = NaN \<or>
   jsLe (Finite 0) (mathMax (Finite 0) (mathMin (Finite 100) s)) \<and>
   jsLe (mathMax (Finite 0) (mathMin (Finite 100) s)) (Finite 100)"
  by (cases s) (auto simp: mathMax_def mathMin_def jsLe_def)

lemma calculatePriorityScore_clamped:
  "\<exists>s. calculatePriorityScore item patterns allAssessments =
         mathMax (Finite 0) (mathMin (Finite 100) s)"
  unfolding calculatePriorityScore_def Let_def by blast

text \<open>The priority score is NaN or lies between 0 and 100.\<close>

lemma calculatePriorityScore_range:
  "calculatePriorityScore item patterns allAssessments = NaN \<or>
   jsLe (Finite 0) (calculatePriorityScore item patterns allAssessments) \<and>
   jsLe (calculatePriorityScore item patterns allAssessments) (Finite 100)"
proof -
  obtain s where "calculatePriorityScore item patterns allAssessments =
      mathMax (Finite 0) (mathMin (Finite 100) s)"
    using calculatePriorityScore_clamped by blast
  then show ?thesis using clamp_range [of s] by auto
qed

lemmas huge_evals =
  round64_eval [where e = 1022] round64_eval [where e = 1023] round64_eval [where e = 1024]

lemma getField_uniform: "getField (assessmentOf v v) f = Finite v"
  by (cases f) (simp_all add: assessmentOf_def)

lemma hugeRows_nonempty: "hugeRows \<noteq> []"
  by (simp add: hugeRows_def)

lemma huge_values:
  "map (\<lambda>a. getField a f) hugeRows =
     [Finite (- (2 ^ 1023)), Finite (3 * 2 ^ 1022), Finite (3 * 2 ^ 1022)]"
  unfolding hugeRows_def list.map getField_uniform by (rule refl)

lemma huge_pattern:
  "map_of (analyzeHistoricalPatterns hugeRows) f =
     Some \<lparr>average = PosInfinity, trend = Stable, consistency = Finite 0\<rparr>"
  by (simp add: map_of_analyzeHistoricalPatterns hugeRows_nonempty fieldPattern_def huge_values)
     (simp add: valuesPattern_def fieldTrend_def reduceSum_def huge_evals number_evals)

lemma huge_score: "fieldScore hugeRows f = NaN"
proof -
  have first: "getField (hugeRows ! 0) f = Finite (- (2 ^ 1023))"
    by (simp add: hugeRows_def getField_uniform)
  have last: "getField (hugeRows ! 2) f = Finite (3 * 2 ^ 1022)"
    by (simp add: hugeRows_def getField_uniform)
  have len: "length hugeRows = 3" by (simp add: hugeRows_def)
  show ?thesis
    by (simp add: fieldScore_def calculatePriorityScore_def huge_pattern first last len
        huge_evals number_evals)
qed

text \<open>
  C2. The claim is that the priority score lies between 0 and 100 for every input. The
  closing \<^verbatim>\<open>Math.max(0, Math.min(100, score))\<close> bounds every score but NaN, which it
  returns unchanged (\<open>calculatePriorityScore_range\<close>). At three rows of finite doubles,
  \<open>- 2 ^ 1023\<close> for the newest and \<open>3 * 2 ^ 1022\<close> for the two before it, the sum of a
  dimension overflows, its average is infinite, the blend makes the score infinite, the
  recency change overflows to the opposite infinity, and the score of every dimension is NaN:
  neither at least 0 nor at most 100.
\<close>

theorem C2_overflow_escapes_clamp:
  "calculatePriorityScore
     (cognitiveAreas (hugeRows ! 0) (analyzeHistoricalPatterns hugeRows) ! 0)
     (analyzeHistoricalPatterns hugeRows) hugeRows = NaN \<and>
   \<not> jsGe NaN (Finite 0) \<and> \<not> jsLe NaN (Finite 100) \<and>
   map priorityScore (scoredAreasOf hugeRows) = [NaN, NaN, NaN, NaN, NaN, NaN, NaN, NaN]"
proof -
  have "calculatePriorityScore
     (cognitiveAreas (hugeRows ! 0) (analyzeHistoricalPatterns hugeRows) ! 0)
     (analyzeHistoricalPatterns hugeRows) hugeRows = NaN"
    using huge_score [of CreativityScore] by (simp add: fieldScore_def areaOf_def)
  moreover have "map priorityScore (scoredAreasOf hugeRows) =
      [NaN, NaN, NaN, NaN, NaN, NaN, NaN, NaN]"
    by (simp add: scores_of_fields cognitiveFields_def huge_score)
  ultimately show ?thesis
    by (simp add: jsGe_def jsLe_def)
qed

lemma sampleEnv_assessmentId:
  "rows \<noteq> [] \<Longrightarrow>
   assessmentId (fst (getStrengthsAndWeaknesses userId (sampleEnv rows))) =
     Some (assessment_id (rows ! 0))"
proof -
  assume rows: "rows \<noteq> []"
  have "formatDate (sampleEnv rows) (completed_at (rows ! 0)) = Some ''01/01/2024''"
    by (simp add: sampleEnv_def)
  from analyze_result [OF this, of userId] obtain r effects
    where "analyze userId (sampleEnv rows) rows = Some (r, effects)"
      and "assessmentId r = Some (assessment_id (rows ! 0))"
    by blast
  with rows show ?thesis
    by (simp add: getStrengthsAndWeaknesses_def Let_def sampleEnv_def)
qed

text \<open>
  C9. The claim is that on the successful analysis of a non-empty assessment sequence the
  longer of the two lists has exactly 3 entries. This holds whenever no priority score is
  NaN (\<open>one_class_full\<close>). The source computes \<^verbatim>\<open>isStrength\<close> as \<^verbatim>\<open>score >= 70\<close> and
  \<^verbatim>\<open>isWeakness\<close> as \<^verbatim>\<open>score < 70\<close>, and a NaN score fails both. At the three rows of
  finite doubles above every score is NaN: the call succeeds, the result carries the id of
  the latest assessment, and both lists are empty.
\<close>

theorem C9_overflow_empty_lists:
  "strengths (fst (getStrengthsAndWeaknesses ''test-user-id'' (sampleEnv hugeRows))) = [] \<and>
   weaknesses (fst (getStrengthsAndWeaknesses ''test-user-id'' (sampleEnv hugeRows))) = [] \<and>
   assessmentId (fst (getStrengthsAndWeaknesses ''test-user-id'' (sampleEnv hugeRows))) =
     Some ''a''"
  using sampleEnv_success [OF hugeRows_nonempty, of "''test-user-id''"]
    sampleEnv_assessmentId [OF hugeRows_nonempty, of "''test-user-id''"]
  by (simp add: scoredAreasOf_fields cognitiveFields_def huge_score potentialStrengths_def
      potentialWeaknesses_def sortBy_def jsGe_def jsLe_def)
     (simp add: hugeRows_def assessmentOf_def)

end
